theory Spec2Isabelle
  imports Main "HOL-Library.Sublist" "HOL-Library.AList"
begin

section \<open>JavaScript primitives used by the chat components\<close>

text \<open>
  The text a user types, and the content of a message made from it, is a JavaScript
  string: a sequence of UTF-16 code units, here natural numbers. Identifiers, names and
  time stamps are only compared and concatenated, and are kept as \<open>string\<close>;
  \<open>utf16\<close> gives the code units of a text written in ASCII.
\<close>

type_synonym jsstring = "nat list"

definition utf16 :: "string \<Rightarrow> jsstring" where
  "utf16 s = map of_char s"

text \<open>
  \<open>String.prototype.trim\<close> strips white space and line terminators from both ends:
  TAB, LF, VT, FF, CR, SPACE, U+00A0, U+1680, U+2000 to U+200A, U+2028, U+2029, U+202F,
  U+205F, U+3000 and U+FEFF, each a single code unit.
\<close>

definition is_ws :: "nat \<Rightarrow> bool" where
  "is_ws u =
     (u \<in> set [0x09, 0x0A, 0x0B, 0x0C, 0x0D, 0x20, 0xA0, 0x1680, 0x2028, 0x2029, 0x202F,
                0x205F, 0x3000, 0xFEFF]
      \<or> (0x2000 \<le> u \<and> u \<le> 0x200A))"

definition trim :: "jsstring \<Rightarrow> jsstring" where
  "trim s = rev (dropWhile is_ws (rev (dropWhile is_ws s)))"

text \<open>\<open>Array.prototype.findIndex\<close>: the first index whose element satisfies the
  predicate, \<open>-1\<close> when there is none.\<close>

fun findIndex :: "('a \<Rightarrow> bool) \<Rightarrow> 'a list \<Rightarrow> int" where
  "findIndex p [] = -1"
| "findIndex p (x # xs) =
     (if p x then 0 else (let r = findIndex p xs in if r = -1 then -1 else r + 1))"

text \<open>\<open>Array.prototype.some\<close>.\<close>

primrec some :: "('a \<Rightarrow> bool) \<Rightarrow> 'a list \<Rightarrow> bool" where
  "some p [] = False"
| "some p (x # xs) = (p x \<or> some p xs)"

text \<open>\<open>Number.prototype.toString\<close> on a non-negative integer (the value of
  \<open>Date.now()\<close>): its decimal digits, most significant first.\<close>

definition digit_char :: "nat \<Rightarrow> char" where
  "digit_char d = ''0123456789'' ! d"

fun toString :: "nat \<Rightarrow> string" where
  "toString n = (if n < 10 then [digit_char n] else toString (n div 10) @ [digit_char (n mod 10)])"

declare toString.simps [simp del]

text \<open>\<open>String.prototype.startsWith\<close>, and the decimal digits.\<close>

definition startsWith :: "string \<Rightarrow> string \<Rightarrow> bool" where
  "startsWith s p = (take (length p) s = p)"

definition is_digit :: "char \<Rightarrow> bool" where
  "is_digit c = (c \<in> set ''0123456789'')"

text \<open>The test by which the main view tells an optimistic entry from its id
  (\<open>isOptimistic\<close>, \<open>_id.toString().startsWith('temp_')\<close>).\<close>

definition isOptimistic :: "string \<Rightarrow> bool" where
  "isOptimistic i = startsWith i ''temp_''"

text \<open>The effects a handler issues besides updating its own view state.\<close>

datatype payload =
    Send_anonymous_message string jsstring string
  | Send_message string jsstring

datatype effect =
    PreventDefault
  | GroupApi_sendMessage string jsstring string
  | GroupApi_getMessages string
  | ChatApi_getHistory string
  | ChatApi_markAsRead string
  | Transport_emit string payload
  | Toast_error string
  | Console_error string
  | Console_warn string

text \<open>The effects that reach the backend (request gateway or push transport).\<close>

fun is_network :: "effect \<Rightarrow> bool" where
  "is_network (GroupApi_sendMessage _ _ _) = True"
| "is_network (GroupApi_getMessages _) = True"
| "is_network (ChatApi_getHistory _) = True"
| "is_network (ChatApi_markAsRead _) = True"
| "is_network (Transport_emit _ _) = True"
| "is_network _ = False"

section \<open>The event-channel wrapper (SocketService, services/socket.ts)\<close>

text \<open>
  Callbacks are compared by reference, so a callback is modelled by an identifier. The
  four anonymous loggers that \<open>connect\<close> attaches are separate callbacks.
\<close>

datatype callback = Log_connect | Log_disconnect | Log_connect_error | Log_connected | Callback nat

text \<open>
  The transport is the \<open>Socket\<close> of socket.io-client, which is not part of the
  repository. It is an event emitter: \<open>on\<close> pushes the callback onto the array of
  the event (a callback attached twice is held twice), \<open>off\<close> removes the first
  occurrence of the callback from that array, and an incoming event invokes every
  callback of its array in order. A socket made by \<open>io\<close> starts unconnected and
  without callbacks.
\<close>

record Socket =
  connected :: bool
  callbacks :: "(string \<times> callback) list"

definition io :: Socket where
  "io = \<lparr> connected = False, callbacks = [] \<rparr>"

definition Socket_on :: "string \<Rightarrow> callback \<Rightarrow> Socket \<Rightarrow> Socket" where
  "Socket_on event cb k = k\<lparr> callbacks := callbacks k @ [(event, cb)] \<rparr>"

definition Socket_off :: "string \<Rightarrow> callback \<Rightarrow> Socket \<Rightarrow> Socket" where
  "Socket_off event cb k = k\<lparr> callbacks := remove1 (event, cb) (callbacks k) \<rparr>"

definition Socket_dispatch :: "string \<Rightarrow> Socket \<Rightarrow> callback list" where
  "Socket_dispatch event k = map snd (filter (\<lambda>p. fst p = event) (callbacks k))"

text \<open>
  The service: the current socket (\<open>null\<close> is \<open>None\<close>) and the registry, a
  \<open>Map\<close> from event names to \<open>Set\<close>s of callbacks. Both keep insertion order, so the
  map is an association list (\<open>Map.set\<close> is \<open>AList.update\<close>) and a set is a list
  without repetition.
\<close>

record SocketService =
  socket :: "Socket option"
  listeners :: "(string \<times> callback list) list"
  abandoned :: "Socket list"

text \<open>
  \<open>abandoned\<close> is not a field of the class. It holds the sockets that \<open>connect\<close> has
  replaced without closing them: the service no longer refers to them, but each stays
  open on a connection of its own, with the callbacks that were attached to it.
\<close>

definition Set_add :: "'a \<Rightarrow> 'a list \<Rightarrow> 'a list" where
  "Set_add x xs = (if x \<in> set xs then xs else xs @ [x])"

definition Set_delete :: "'a \<Rightarrow> 'a list \<Rightarrow> 'a list" where
  "Set_delete x xs = removeAll x xs"

definition new_SocketService :: SocketService where
  "new_SocketService = \<lparr> socket = None, listeners = [], abandoned = [] \<rparr>"

text \<open>Lines 46-50: every callback of every registry entry is attached to the socket.\<close>

definition reregister :: "(string \<times> callback list) list \<Rightarrow> Socket \<Rightarrow> Socket" where
  "reregister ls k =
     foldl (\<lambda>k1 entry. foldl (\<lambda>k2 cb. Socket_on (fst entry) cb k2) k1 (snd entry)) k ls"

text \<open>\<open>connect\<close> (lines 7-51); \<open>token\<close> is what \<open>localStorage.getItem\<close> returns,
  and both \<open>null\<close> and the empty string are falsy. Console output is left out. The guard
  of lines 15-18 lets a socket that exists but is not connected be replaced; nothing
  closes it, so it joins the abandoned ones.\<close>

definition connect :: "string option \<Rightarrow> SocketService \<Rightarrow> SocketService" where
  "connect token s =
     (if token = None \<or> token = Some [] then s
      else if (case socket s of None \<Rightarrow> False | Some k \<Rightarrow> connected k) then s
      else s\<lparr> socket := Some
             (reregister (listeners s)
               (Socket_on ''connected'' Log_connected
                 (Socket_on ''connect_error'' Log_connect_error
                   (Socket_on ''disconnect'' Log_disconnect
                     (Socket_on ''connect'' Log_connect io))))),
             abandoned := (case socket s of None \<Rightarrow> abandoned s
                           | Some k \<Rightarrow> abandoned s @ [k]) \<rparr>)"

text \<open>\<open>disconnect\<close> (lines 53-59).\<close>

definition disconnect :: "SocketService \<Rightarrow> SocketService" where
  "disconnect s = (case socket s of None \<Rightarrow> s | Some k \<Rightarrow> s\<lparr> socket := None \<rparr>)"

text \<open>\<open>on\<close> (lines 61-77); the unsubscribe function it returns is \<open>off\<close> with the
  same arguments.\<close>

definition on :: "string \<Rightarrow> callback \<Rightarrow> SocketService \<Rightarrow> SocketService" where
  "on event cb s =
     (let ls = (if map_of (listeners s) event = None
                then AList.update event [] (listeners s) else listeners s);
          ls' = (case map_of ls event of
                   None \<Rightarrow> ls
                 | Some cbs \<Rightarrow> AList.update event (Set_add cb cbs) ls)
      in s\<lparr> listeners := ls',
             socket := (case socket s of None \<Rightarrow> None
                        | Some k \<Rightarrow> Some (Socket_on event cb k)) \<rparr>)"

text \<open>\<open>off\<close> (lines 79-82).\<close>

definition off :: "string \<Rightarrow> callback \<Rightarrow> SocketService \<Rightarrow> SocketService" where
  "off event cb s =
     s\<lparr> listeners := (case map_of (listeners s) event of
                          None \<Rightarrow> listeners s
                        | Some cbs \<Rightarrow> AList.update event (Set_delete cb cbs) (listeners s)),
         socket := (case socket s of None \<Rightarrow> None
                    | Some k \<Rightarrow> Some (Socket_off event cb k)) \<rparr>"

text \<open>\<open>emit\<close> (lines 84-90): forwarded only over a connected socket, else dropped
  with a warning.\<close>

definition emit :: "string \<Rightarrow> payload \<Rightarrow> SocketService \<Rightarrow> effect list" where
  "emit event data s =
     (if (case socket s of None \<Rightarrow> False | Some k \<Rightarrow> connected k)
      then [Transport_emit event data]
      else [Console_warn (''Socket not connected, cannot emit: '' @ event)])"

text \<open>
  What the transport does by itself. The handshake of the current socket completes, or
  the handshakes of the abandoned ones. The backend sends one event to the client: it
  arrives on every connection the client holds open, and each connected socket hands it
  to the callbacks attached to it; \<open>deliver\<close> gives the callbacks invoked, in order, and
  \<open>attached\<close> those attached to the current socket.
\<close>

definition transport_connected :: "SocketService \<Rightarrow> SocketService" where
  "transport_connected s =
     s\<lparr> socket := (case socket s of None \<Rightarrow> None
                    | Some k \<Rightarrow> Some (k\<lparr> connected := True \<rparr>)) \<rparr>"

definition abandoned_connected :: "SocketService \<Rightarrow> SocketService" where
  "abandoned_connected s = s\<lparr> abandoned := map (\<lambda>k. k\<lparr> connected := True \<rparr>) (abandoned s) \<rparr>"

definition attached :: "string \<Rightarrow> SocketService \<Rightarrow> callback list" where
  "attached event s = (case socket s of None \<Rightarrow> [] | Some k \<Rightarrow> Socket_dispatch event k)"

definition deliver :: "string \<Rightarrow> SocketService \<Rightarrow> callback list" where
  "deliver event s =
     concat (map (Socket_dispatch event) (filter connected (abandoned s)))
     @ (case socket s of
          None \<Rightarrow> []
        | Some k \<Rightarrow> if connected k then Socket_dispatch event k else [])"

text \<open>\<open>isConnected\<close> (lines 92-94).\<close>

definition isConnected :: "SocketService \<Rightarrow> bool" where
  "isConnected s = (case socket s of None \<Rightarrow> False | Some k \<Rightarrow> connected k)"

text \<open>The registry entry of an event, empty when the event has none.\<close>

definition registered :: "string \<Rightarrow> SocketService \<Rightarrow> callback list" where
  "registered event s = (case map_of (listeners s) event of None \<Rightarrow> [] | Some cbs \<Rightarrow> cbs)"


text \<open>The states the service can reach: from the singleton as constructed, by any
  sequence of calls of its methods and handshakes of the transport.\<close>

datatype service_call =
    Connect "string option"
  | Disconnect
  | On string callback
  | Off string callback
  | Handshake
  | Handshake_abandoned

fun service_step :: "service_call \<Rightarrow> SocketService \<Rightarrow> SocketService" where
  "service_step (Connect token) s = connect token s"
| "service_step Disconnect s = disconnect s"
| "service_step (On event cb) s = on event cb s"
| "service_step (Off event cb) s = off event cb s"
| "service_step Handshake s = transport_connected s"
| "service_step Handshake_abandoned s = abandoned_connected s"

definition service_run :: "service_call list \<Rightarrow> SocketService" where
  "service_run calls = foldl (\<lambda>s c. service_step c s) new_SocketService calls"

section \<open>Group chat (src/components/groups/GroupChat.tsx)\<close>

record GroupMember =
  member_id :: string
  member_name :: string
  member_email :: string

record GroupMessage =
  gmsg_id :: string
  gmsg_groupId :: string
  gmsg_sender :: GroupMember
  gmsg_content :: jsstring
  gmsg_isSystemMessage :: bool
  gmsg_createdAt :: string

text \<open>The payload of a \<open>group-message\<close> push event; \<open>clientId\<close> may be absent.\<close>

record group_event =
  gev_id :: string
  gev_groupId :: string
  gev_senderId :: string
  gev_senderName :: string
  gev_content :: jsstring
  gev_isSystemMessage :: bool
  gev_timestamp :: string
  gev_clientId :: "string option"

text \<open>The object literal the listener builds from the event (lines 40-47 and 55-62).\<close>

definition group_message_of :: "group_event \<Rightarrow> GroupMessage" where
  "group_message_of data =
     \<lparr> gmsg_id = gev_id data,
       gmsg_groupId = gev_groupId data,
       gmsg_sender = \<lparr> member_id = gev_senderId data, member_name = gev_senderName data,
                       member_email = [] \<rparr>,
       gmsg_content = gev_content data,
       gmsg_isSystemMessage = gev_isSystemMessage data,
       gmsg_createdAt = gev_timestamp data \<rparr>"

text \<open>The updater passed to \<open>setMessages\<close> by the listener (lines 34-63). A missing or
  empty \<open>clientId\<close> is falsy, so \<open>tempIndex\<close> is looked up only for a non-empty one.\<close>

definition group_message_update :: "group_event \<Rightarrow> GroupMessage list \<Rightarrow> GroupMessage list" where
  "group_message_update data prev =
     (let tempIndex =
        (case gev_clientId data of
           None \<Rightarrow> -1
         | Some c \<Rightarrow> if c = [] then -1 else findIndex (\<lambda>m. gmsg_id m = ''temp_'' @ c) prev)
      in if tempIndex \<noteq> -1 then prev[nat tempIndex := group_message_of data]
         else if some (\<lambda>m. gmsg_id m = gev_id data) prev then prev
         else prev @ [group_message_of data])"

text \<open>The \<open>group-message\<close> listener (lines 32-66) of the view showing group \<open>group_id\<close>.\<close>

definition group_message_listener ::
  "string \<Rightarrow> group_event \<Rightarrow> GroupMessage list \<Rightarrow> GroupMessage list" where
  "group_message_listener group_id data prev =
     (if gev_groupId data = group_id then group_message_update data prev else prev)"

text \<open>The rollback in the \<open>catch\<close> block of \<open>handleSendMessage\<close> (line 117).\<close>

definition group_rollback :: "string \<Rightarrow> GroupMessage list \<Rightarrow> GroupMessage list" where
  "group_rollback clientId prev = filter (\<lambda>m. gmsg_id m \<noteq> ''temp_'' @ clientId) prev"

text \<open>The view state of the component, with the \<open>group.id\<close> of its \<open>group\<close> prop.\<close>

record GroupChat =
  gc_group_id :: string
  gc_messages :: "GroupMessage list"
  gc_newMessage :: jsstring
  gc_isLoading :: bool

text \<open>The signed-in user of \<open>useAuth\<close> (\<open>None\<close> when there is none).\<close>

record User =
  user_id :: string
  user_name :: string

text \<open>
  \<open>handleSendMessage\<close> (lines 93-119) up to its \<open>await\<close>. \<open>e\<close> tells whether a form
  event was passed, \<open>now\<close> is the value of \<open>Date.now()\<close> and \<open>stamp\<close> that of
  \<open>new Date().toISOString()\<close>. The result holds the new view state, the effects in
  order, and the \<open>clientId\<close> of the request now in flight (\<open>None\<close> after the early
  return).
\<close>

definition group_handleSendMessage ::
  "bool \<Rightarrow> User option \<Rightarrow> nat \<Rightarrow> string \<Rightarrow> GroupChat
     \<Rightarrow> GroupChat \<times> effect list \<times> string option" where
  "group_handleSendMessage e user now stamp s =
     (if trim (gc_newMessage s) = [] then (s, (if e then [PreventDefault] else []), None)
      else
        let content = trim (gc_newMessage s);
            clientId = toString now;
            tempMsg = \<lparr> gmsg_id = ''temp_'' @ clientId,
                        gmsg_groupId = gc_group_id s,
                        gmsg_sender =
                          \<lparr> member_id = (case user of None \<Rightarrow> [] | Some u \<Rightarrow> user_id u),
                            member_name = (case user of None \<Rightarrow> [] | Some u \<Rightarrow> user_name u),
                            member_email = [] \<rparr>,
                        gmsg_content = content,
                        gmsg_isSystemMessage = False,
                        gmsg_createdAt = stamp \<rparr>
        in (s\<lparr> gc_newMessage := [], gc_messages := gc_messages s @ [tempMsg] \<rparr>,
            (if e then [PreventDefault] else [])
              @ [GroupApi_sendMessage (gc_group_id s) content clientId],
            Some clientId))"

text \<open>The rest of \<open>handleSendMessage\<close>, run when the request settles: nothing when it
  is fulfilled, the \<open>catch\<close> block (lines 114-118) when it is rejected. It runs on the
  view state of that later moment.\<close>

datatype outcome = Fulfilled | Rejected

definition group_handleSendMessage_settled ::
  "outcome \<Rightarrow> string \<Rightarrow> GroupChat \<Rightarrow> GroupChat \<times> effect list" where
  "group_handleSendMessage_settled r clientId s =
     (case r of
        Fulfilled \<Rightarrow> (s, [])
      | Rejected \<Rightarrow>
          (s\<lparr> gc_messages := group_rollback clientId (gc_messages s) \<rparr>,
           [Console_error ''Failed to send message:'', Toast_error ''Failed to send message'']))"

text \<open>
  \<open>loadMessages\<close> (lines 80-91): the call up to its \<open>await\<close>, and what runs when
  \<open>groupApi.getMessages\<close> settles. The request is made for the \<open>group.id\<close> of the
  moment of the call; the continuation does not look at it again.
\<close>

definition loadMessages :: "GroupChat \<Rightarrow> GroupChat \<times> effect list" where
  "loadMessages s = (s\<lparr> gc_isLoading := True \<rparr>, [GroupApi_getMessages (gc_group_id s)])"

definition loadMessages_fulfilled :: "GroupMessage list \<Rightarrow> GroupChat \<Rightarrow> GroupChat" where
  "loadMessages_fulfilled data s = s\<lparr> gc_messages := data, gc_isLoading := False \<rparr>"

definition loadMessages_rejected :: "GroupChat \<Rightarrow> GroupChat \<times> effect list" where
  "loadMessages_rejected s =
     (s\<lparr> gc_isLoading := False \<rparr>,
      [Console_error ''Failed to load messages:'', Toast_error ''Failed to load messages''])"

text \<open>
  What can happen to a mounted group view: the parent passes another group (the effect
  of lines 28-71 runs again and calls \<open>loadMessages\<close>), a history request made for
  some group settles, or a \<open>group-message\<close> event arrives.
\<close>

datatype group_view_event =
    Group_switched string
  | Messages_loaded string "GroupMessage list"
  | Messages_failed string
  | Group_message group_event

fun group_view_step :: "group_view_event \<Rightarrow> GroupChat \<Rightarrow> GroupChat" where
  "group_view_step (Group_switched g) s = fst (loadMessages (s\<lparr> gc_group_id := g \<rparr>))"
| "group_view_step (Messages_loaded requested data) s = loadMessages_fulfilled data s"
| "group_view_step (Messages_failed requested) s = fst (loadMessages_rejected s)"
| "group_view_step (Group_message data) s =
     s\<lparr> gc_messages := group_message_listener (gc_group_id s) data (gc_messages s) \<rparr>"

definition group_view_mount :: "string \<Rightarrow> GroupChat" where
  "group_view_mount g =
     fst (loadMessages \<lparr> gc_group_id = g, gc_messages = [], gc_newMessage = [], gc_isLoading = True \<rparr>)"

definition group_view_run :: "group_view_event list \<Rightarrow> GroupChat \<Rightarrow> GroupChat" where
  "group_view_run evs s = foldl (\<lambda>s1 ev. group_view_step ev s1) s evs"

section \<open>Anonymous room chat (components/anonymous/AnonymousChat.tsx)\<close>

record AnonymousMessage =
  amsg_id :: string
  amsg_anonymousName :: string
  amsg_content :: jsstring
  amsg_createdAt :: string
  amsg_isMe :: "bool option"

text \<open>The payload of a \<open>receive-anonymous-message\<close> event.\<close>

record anonymous_event =
  aev_id :: string
  aev_roomId :: string
  aev_anonymousName :: string
  aev_content :: jsstring
  aev_createdAt :: string
  aev_clientId :: "string option"

definition anonymous_message_of :: "string \<Rightarrow> anonymous_event \<Rightarrow> AnonymousMessage" where
  "anonymous_message_of anonymousName data =
     \<lparr> amsg_id = aev_id data,
       amsg_anonymousName = aev_anonymousName data,
       amsg_content = aev_content data,
       amsg_createdAt = aev_createdAt data,
       amsg_isMe = Some (aev_anonymousName data = anonymousName) \<rparr>"

text \<open>The updater of the listener (lines 58-86) and the listener itself (lines 56-88).\<close>

definition anonymous_message_update ::
  "string \<Rightarrow> anonymous_event \<Rightarrow> AnonymousMessage list \<Rightarrow> AnonymousMessage list" where
  "anonymous_message_update anonymousName data prev =
     (let tempIndex =
        (case aev_clientId data of
           None \<Rightarrow> -1
         | Some c \<Rightarrow> if c = [] then -1 else findIndex (\<lambda>m. amsg_id m = ''temp_'' @ c) prev)
      in if tempIndex \<noteq> -1 then prev[nat tempIndex := anonymous_message_of anonymousName data]
         else if some (\<lambda>m. amsg_id m = aev_id data) prev then prev
         else prev @ [anonymous_message_of anonymousName data])"

definition anonymous_message_listener ::
  "string \<Rightarrow> string \<Rightarrow> anonymous_event \<Rightarrow> AnonymousMessage list \<Rightarrow> AnonymousMessage list" where
  "anonymous_message_listener roomId anonymousName data prev =
     (if aev_roomId data = roomId then anonymous_message_update anonymousName data prev else prev)"

record AnonymousChat =
  ac_messages :: "AnonymousMessage list"
  ac_newMessage :: jsstring

text \<open>\<open>handleSendMessage\<close> (lines 116-139); the send goes through \<open>socketService.emit\<close>,
  which returns nothing, and the function has no \<open>await\<close> and no \<open>catch\<close>.\<close>

definition anonymous_handleSendMessage ::
  "string \<Rightarrow> string \<Rightarrow> nat \<Rightarrow> string \<Rightarrow> SocketService \<Rightarrow> AnonymousChat
     \<Rightarrow> AnonymousChat \<times> effect list" where
  "anonymous_handleSendMessage roomId anonymousName now stamp service s =
     (if trim (ac_newMessage s) = [] then (s, [])
      else
        let content = trim (ac_newMessage s);
            clientId = toString now;
            tempMessage = \<lparr> amsg_id = ''temp_'' @ clientId,
                            amsg_anonymousName = anonymousName,
                            amsg_content = content,
                            amsg_createdAt = stamp,
                            amsg_isMe = Some True \<rparr>
        in (s\<lparr> ac_newMessage := [], ac_messages := ac_messages s @ [tempMessage] \<rparr>,
            emit ''send-anonymous-message'' (Send_anonymous_message roomId content clientId)
              service))"

section \<open>Direct chat window (components/chat/ChatWindow.tsx)\<close>

record Message =
  msg_id :: string
  msg_sender :: string
  msg_recipient :: string
  msg_content :: jsstring
  msg_isRead :: bool
  msg_createdAt :: string

text \<open>The payload of a \<open>receive-message\<close> event as this component reads it.\<close>

record direct_event =
  dev_id :: string
  dev_senderId :: string
  dev_content :: jsstring
  dev_timestamp :: string

text \<open>The \<open>receive-message\<close> listener (lines 29-42) of the window opened on
  \<open>friend_id\<close>: the new transcript and the effects.\<close>

definition receive_message_listener ::
  "string \<Rightarrow> User option \<Rightarrow> direct_event \<Rightarrow> Message list \<Rightarrow> Message list \<times> effect list" where
  "receive_message_listener friend_id user data prev =
     (if dev_senderId data = friend_id
      then (prev @ [\<lparr> msg_id = dev_id data,
                      msg_sender = dev_senderId data,
                      msg_recipient = (case user of None \<Rightarrow> [] | Some u \<Rightarrow> user_id u),
                      msg_content = dev_content data,
                      msg_isRead = False,
                      msg_createdAt = dev_timestamp data \<rparr>],
            [ChatApi_markAsRead friend_id])
      else (prev, []))"

record ChatWindow =
  cw_friend_id :: string
  cw_messages :: "Message list"
  cw_newMessage :: jsstring
  cw_isLoading :: bool

text \<open>\<open>handleSendMessage\<close> (lines 67-92): the emit comes first, then the local entry,
  whose \<open>_id\<close> is the bare \<open>Date.now().toString()\<close>.\<close>

definition direct_handleSendMessage ::
  "User option \<Rightarrow> nat \<Rightarrow> string \<Rightarrow> SocketService \<Rightarrow> ChatWindow
     \<Rightarrow> ChatWindow \<times> effect list" where
  "direct_handleSendMessage user now stamp service s =
     (if trim (cw_newMessage s) = [] then (s, [PreventDefault])
      else
        let content = trim (cw_newMessage s);
            tempMsg = \<lparr> msg_id = toString now,
                        msg_sender = (case user of None \<Rightarrow> [] | Some u \<Rightarrow> user_id u),
                        msg_recipient = cw_friend_id s,
                        msg_content = content,
                        msg_isRead = True,
                        msg_createdAt = stamp \<rparr>
        in (s\<lparr> cw_newMessage := [], cw_messages := cw_messages s @ [tempMsg] \<rparr>,
            PreventDefault # emit ''send-message'' (Send_message (cw_friend_id s) content) service))"

text \<open>\<open>loadHistory\<close> (lines 53-65): the call, and the continuation after
  \<open>chatApi.getHistory\<close> is fulfilled, up to its second \<open>await\<close> (\<open>isLoading\<close> is
  reset after that one). It reads \<open>friend.id\<close> only for \<open>markAsRead\<close>, where it is the
  value of the moment of the call.\<close>

definition loadHistory :: "ChatWindow \<Rightarrow> ChatWindow \<times> effect list" where
  "loadHistory s = (s\<lparr> cw_isLoading := True \<rparr>, [ChatApi_getHistory (cw_friend_id s)])"

definition loadHistory_fulfilled ::
  "string \<Rightarrow> Message list \<Rightarrow> ChatWindow \<Rightarrow> ChatWindow \<times> effect list" where
  "loadHistory_fulfilled requested history s =
     (s\<lparr> cw_messages := history \<rparr>, [ChatApi_markAsRead requested])"

text \<open>What can happen to a mounted chat window: the parent passes another friend (the
  effect of lines 25-47 runs again and calls \<open>loadHistory\<close>), or a history request made
  for some friend is fulfilled.\<close>

datatype chat_window_event =
    Friend_switched string
  | History_loaded string "Message list"

fun chat_window_step :: "chat_window_event \<Rightarrow> ChatWindow \<Rightarrow> ChatWindow" where
  "chat_window_step (Friend_switched f) s = fst (loadHistory (s\<lparr> cw_friend_id := f \<rparr>))"
| "chat_window_step (History_loaded requested history) s =
     fst (loadHistory_fulfilled requested history s)"

definition chat_window_mount :: "string \<Rightarrow> ChatWindow" where
  "chat_window_mount f =
     fst (loadHistory \<lparr> cw_friend_id = f, cw_messages = [], cw_newMessage = [], cw_isLoading = True \<rparr>)"

definition chat_window_run :: "chat_window_event list \<Rightarrow> ChatWindow \<Rightarrow> ChatWindow" where
  "chat_window_run evs s = foldl (\<lambda>s1 ev. chat_window_step ev s1) s evs"

section \<open>Sample data\<close>

definition sample_group_message :: "string \<Rightarrow> string \<Rightarrow> GroupMessage" where
  "sample_group_message i g =
     \<lparr> gmsg_id = i, gmsg_groupId = g,
       gmsg_sender = \<lparr> member_id = ''u1'', member_name = ''Ann'', member_email = [] \<rparr>,
       gmsg_content = utf16 ''hi'', gmsg_isSystemMessage = False,
       gmsg_createdAt = ''2024-01-01T00:00:00.000Z'' \<rparr>"

definition sample_group_event :: "string \<Rightarrow> string \<Rightarrow> string option \<Rightarrow> group_event" where
  "sample_group_event i g c =
     \<lparr> gev_id = i, gev_groupId = g, gev_senderId = ''u2'', gev_senderName = ''Bob'',
       gev_content = utf16 ''yo'', gev_isSystemMessage = False,
       gev_timestamp = ''2024-01-01T00:00:01.000Z'', gev_clientId = c \<rparr>"

definition sample_anonymous_message :: "string \<Rightarrow> AnonymousMessage" where
  "sample_anonymous_message i =
     \<lparr> amsg_id = i, amsg_anonymousName = ''Fox'', amsg_content = utf16 ''hi'',
       amsg_createdAt = ''2024-01-01T00:00:00.000Z'', amsg_isMe = Some True \<rparr>"

definition sample_anonymous_event :: "string \<Rightarrow> string \<Rightarrow> string option \<Rightarrow> anonymous_event" where
  "sample_anonymous_event i r c =
     \<lparr> aev_id = i, aev_roomId = r, aev_anonymousName = ''Owl'', aev_content = utf16 ''yo'',
       aev_createdAt = ''2024-01-01T00:00:01.000Z'', aev_clientId = c \<rparr>"

definition sample_message :: "string \<Rightarrow> string \<Rightarrow> Message" where
  "sample_message i sender =
     \<lparr> msg_id = i, msg_sender = sender, msg_recipient = ''u1'', msg_content = utf16 ''hi'',
       msg_isRead = True, msg_createdAt = ''2024-01-01T00:00:00.000Z'' \<rparr>"

definition sample_direct_event :: "string \<Rightarrow> string \<Rightarrow> direct_event" where
  "sample_direct_event i sender =
     \<lparr> dev_id = i, dev_senderId = sender, dev_content = utf16 ''hi'',
       dev_timestamp = ''2024-01-01T00:00:01.000Z'' \<rparr>"

definition sample_group_view :: "jsstring \<Rightarrow> GroupChat" where
  "sample_group_view typed =
     \<lparr> gc_group_id = ''g1'', gc_messages = [], gc_newMessage = typed, gc_isLoading = False \<rparr>"

definition sample_anonymous_view :: "jsstring \<Rightarrow> AnonymousChat" where
  "sample_anonymous_view typed = \<lparr> ac_messages = [], ac_newMessage = typed \<rparr>"

definition sample_chat_window :: "jsstring \<Rightarrow> ChatWindow" where
  "sample_chat_window typed =
     \<lparr> cw_friend_id = ''f1'', cw_messages = [], cw_newMessage = typed, cw_isLoading = False \<rparr>"

section \<open>Notions of the specification\<close>

text \<open>An event is pending on a transcript when it carries a (non-empty) client
  correlation id and some entry has the reserved prefix followed by that id as its id.\<close>

definition group_pending :: "group_event \<Rightarrow> GroupMessage list \<Rightarrow> bool" where
  "group_pending data prev =
     (case gev_clientId data of
        None \<Rightarrow> False
      | Some c \<Rightarrow> c \<noteq> [] \<and> (\<exists>m\<in>set prev. gmsg_id m = ''temp_'' @ c))"

definition anonymous_pending :: "anonymous_event \<Rightarrow> AnonymousMessage list \<Rightarrow> bool" where
  "anonymous_pending data prev =
     (case aev_clientId data of
        None \<Rightarrow> False
      | Some c \<Rightarrow> c \<noteq> [] \<and> (\<exists>m\<in>set prev. amsg_id m = ''temp_'' @ c))"

section \<open>The shape shared by the two updaters\<close>

text \<open>
  The updaters of the group view and of the anonymous room view are the same code over
  different message types: \<open>idf\<close> reads the id of an entry, \<open>clientId\<close> and \<open>sid\<close> are the
  correlation id and the id of the event, \<open>built\<close> is the message built from it.
\<close>

definition reconcile ::
  "('m \<Rightarrow> string) \<Rightarrow> string option \<Rightarrow> string \<Rightarrow> 'm \<Rightarrow> 'm list \<Rightarrow> 'm list" where
  "reconcile idf clientId sid built prev =
     (let tempIndex =
        (case clientId of
           None \<Rightarrow> -1
         | Some c \<Rightarrow> if c = [] then -1 else findIndex (\<lambda>m. idf m = ''temp_'' @ c) prev)
      in if tempIndex \<noteq> -1 then prev[nat tempIndex := built]
         else if some (\<lambda>m. idf m = sid) prev then prev
         else prev @ [built])"

definition pending :: "('m \<Rightarrow> string) \<Rightarrow> string option \<Rightarrow> 'm list \<Rightarrow> bool" where
  "pending idf clientId prev =
     (case clientId of
        None \<Rightarrow> False
      | Some c \<Rightarrow> c \<noteq> [] \<and> (\<exists>m\<in>set prev. idf m = ''temp_'' @ c))"

section \<open>Array primitives\<close>

lemma utf16_Nil_iff [simp]: "utf16 s = [] \<longleftrightarrow> s = []"
  by (simp add: utf16_def)

lemma some_iff: "some p xs \<longleftrightarrow> (\<exists>x\<in>set xs. p x)"
  by (induction xs) auto

lemma findIndex_ge: "- 1 \<le> findIndex p xs"
  by (induction xs) (auto simp: Let_def)

lemma findIndex_none_iff: "findIndex p xs = - 1 \<longleftrightarrow> (\<forall>x\<in>set xs. \<not> p x)"
proof (induction xs)
  case Nil
  show ?case by simp
next
  case (Cons x xs)
  have "- 1 \<le> findIndex p xs" by (rule findIndex_ge)
  then have "findIndex p xs + 1 \<noteq> - 1" by arith
  with Cons show ?case by (auto simp: Let_def)
qed

lemma findIndex_first:
  "i < length xs \<Longrightarrow> p (xs ! i) \<Longrightarrow> (\<forall>j<i. \<not> p (xs ! j)) \<Longrightarrow> findIndex p xs = int i"
proof (induction xs arbitrary: i)
  case Nil
  then show ?case by simp
next
  case (Cons x xs)
  show ?case
  proof (cases i)
    case 0
    with Cons.prems show ?thesis by simp
  next
    case (Suc k)
    from Cons.prems Suc have npx: "\<not> p x" by auto
    from Cons.prems Suc have k: "k < length xs" "p (xs ! k)" by auto
    have "\<forall>j<k. \<not> p (xs ! j)"
    proof (intro allI impI)
      fix j assume "j < k"
      then have "Suc j < i" using Suc by simp
      with Cons.prems(3) have "\<not> p ((x # xs) ! Suc j)" by blast
      then show "\<not> p (xs ! j)" by simp
    qed
    with Cons.IH k have "findIndex p xs = int k" by blast
    with npx Suc show ?thesis by (simp add: Let_def)
  qed
qed

lemma findIndex_found:
  assumes "\<exists>x\<in>set xs. p x"
  shows "\<exists>i. findIndex p xs = int i \<and> i < length xs \<and> p (xs ! i) \<and> (\<forall>j<i. \<not> p (xs ! j))"
proof -
  define i where "i = (LEAST i. i < length xs \<and> p (xs ! i))"
  from assms obtain k where "k < length xs \<and> p (xs ! k)" by (auto simp: in_set_conv_nth)
  then have a: "i < length xs \<and> p (xs ! i)" unfolding i_def by (rule LeastI)
  have b: "\<forall>j<i. \<not> p (xs ! j)"
  proof (intro allI impI)
    fix j assume ji: "j < i"
    show "\<not> p (xs ! j)"
    proof
      assume "p (xs ! j)"
      with ji a have "j < length xs \<and> p (xs ! j)" by simp
      then have "i \<le> j" unfolding i_def by (rule Least_le)
      with ji show False by simp
    qed
  qed
  from a b have "findIndex p xs = int i" by (simp add: findIndex_first)
  with a b show ?thesis by blast
qed

section \<open>Rollback frame\<close>

text \<open>
  C10. When a group send fails, the rollback removes exactly the entries whose id is
  \<open>temp_\<close> followed by that send's correlation id: every other message stays, as often as
  it occurred, and the remaining messages keep their relative order (the result is a
  subsequence of the transcript that still holds every entry with another id).
\<close>

theorem group_rollback_frame:
  "subseq (group_rollback c prev) prev
   \<and> set (group_rollback c prev) = {m \<in> set prev. gmsg_id m \<noteq> ''temp_'' @ c}
   \<and> (\<forall>m. gmsg_id m \<noteq> ''temp_'' @ c \<longrightarrow>
          count_list (group_rollback c prev) m = count_list prev m)
   \<and> filter (\<lambda>m. gmsg_id m \<noteq> ''temp_'' @ c) (group_rollback c prev)
       = filter (\<lambda>m. gmsg_id m \<noteq> ''temp_'' @ c) prev"
proof -
  have keep: "count_list (filter P xs) m = count_list xs m" if "P m" for P xs and m :: GroupMessage
    using that by (induction xs) auto
  show ?thesis
    unfolding group_rollback_def by (auto simp: keep)
qed

theorem group_rollback_frame_witness:
  "gmsg_id (sample_group_message ''m1'' ''g1'') \<noteq> ''temp_'' @ ''5''
   \<and> count_list (group_rollback ''5'' [sample_group_message ''temp_5'' ''g1'',
          sample_group_message ''m1'' ''g1'', sample_group_message ''temp_5'' ''g1''])
        (sample_group_message ''m1'' ''g1'')
      = count_list [sample_group_message ''temp_5'' ''g1'',
          sample_group_message ''m1'' ''g1'', sample_group_message ''temp_5'' ''g1'']
        (sample_group_message ''m1'' ''g1'')"
proof -
  have h: "gmsg_id (sample_group_message ''m1'' ''g1'') \<noteq> ''temp_'' @ ''5''"
    by (simp add: sample_group_message_def)
  from group_rollback_frame [of "''5''" "[sample_group_message ''temp_5'' ''g1'',
          sample_group_message ''m1'' ''g1'', sample_group_message ''temp_5'' ''g1'']"]
  have "\<forall>m. gmsg_id m \<noteq> ''temp_'' @ ''5'' \<longrightarrow>
          count_list (group_rollback ''5'' [sample_group_message ''temp_5'' ''g1'',
            sample_group_message ''m1'' ''g1'', sample_group_message ''temp_5'' ''g1'']) m
          = count_list [sample_group_message ''temp_5'' ''g1'',
            sample_group_message ''m1'' ''g1'', sample_group_message ''temp_5'' ''g1''] m"
    by blast
  with h show ?thesis by blast
qed

section \<open>Handling of a push event\<close>

lemma group_update_replace:
  assumes "gev_clientId data = Some c" "c \<noteq> []" "i < length prev"
    "gmsg_id (prev ! i) = ''temp_'' @ c" "\<forall>j<i. gmsg_id (prev ! j) \<noteq> ''temp_'' @ c"
  shows "group_message_update data prev = prev[i := group_message_of data]"
proof -
  have "findIndex (\<lambda>m. gmsg_id m = ''temp_'' @ c) prev = int i"
    using assms(3-5) by (intro findIndex_first) auto
  with assms(1,2) show ?thesis by (simp add: group_message_update_def)
qed

lemma group_update_not_pending:
  assumes "\<not> group_pending data prev"
  shows "group_message_update data prev =
    (if \<exists>m\<in>set prev. gmsg_id m = gev_id data then prev else prev @ [group_message_of data])"
proof -
  have "(case gev_clientId data of None \<Rightarrow> - 1
         | Some c \<Rightarrow> if c = [] then - 1 else findIndex (\<lambda>m. gmsg_id m = ''temp_'' @ c) prev) = - 1"
    using assms by (auto simp: group_pending_def findIndex_none_iff split: option.splits)
  then show ?thesis by (simp add: group_message_update_def some_iff)
qed

lemma anonymous_update_replace:
  assumes "aev_clientId data = Some c" "c \<noteq> []" "i < length prev"
    "amsg_id (prev ! i) = ''temp_'' @ c" "\<forall>j<i. amsg_id (prev ! j) \<noteq> ''temp_'' @ c"
  shows "anonymous_message_update me data prev = prev[i := anonymous_message_of me data]"
proof -
  have "findIndex (\<lambda>m. amsg_id m = ''temp_'' @ c) prev = int i"
    using assms(3-5) by (intro findIndex_first) auto
  with assms(1,2) show ?thesis by (simp add: anonymous_message_update_def)
qed

lemma anonymous_update_not_pending:
  assumes "\<not> anonymous_pending data prev"
  shows "anonymous_message_update me data prev =
    (if \<exists>m\<in>set prev. amsg_id m = aev_id data then prev else prev @ [anonymous_message_of me data])"
proof -
  have "(case aev_clientId data of None \<Rightarrow> - 1
         | Some c \<Rightarrow> if c = [] then - 1 else findIndex (\<lambda>m. amsg_id m = ''temp_'' @ c) prev) = - 1"
    using assms by (auto simp: anonymous_pending_def findIndex_none_iff split: option.splits)
  then show ?thesis by (simp add: anonymous_message_update_def some_iff)
qed

text \<open>
  C1. The message listener of the group view and of the anonymous room view treats a push
  event in this order: an event of another conversation is ignored; else, if the event
  carries a client correlation id and an entry with id \<open>temp_\<close> followed by it exists, the
  first such entry is replaced in place (same position, same length) by the message built
  from the event: every field is taken from the event, the id is the event's id and the
  time stamp the event's time stamp; else, if an entry with the event's id exists, the
  event is ignored; else that same message is appended at the end.
\<close>

theorem remote_event_order:
  "(gev_groupId data \<noteq> g \<longrightarrow> group_message_listener g data prev = prev)
   \<and> (gev_groupId data = g \<and> gev_clientId data = Some c \<and> c \<noteq> [] \<and> i < length prev
        \<and> gmsg_id (prev ! i) = ''temp_'' @ c \<and> (\<forall>j<i. gmsg_id (prev ! j) \<noteq> ''temp_'' @ c)
      \<longrightarrow> group_message_listener g data prev
            = prev[i := \<lparr> gmsg_id = gev_id data, gmsg_groupId = gev_groupId data,
                           gmsg_sender = \<lparr> member_id = gev_senderId data,
                                           member_name = gev_senderName data,
                                           member_email = [] \<rparr>,
                           gmsg_content = gev_content data,
                           gmsg_isSystemMessage = gev_isSystemMessage data,
                           gmsg_createdAt = gev_timestamp data \<rparr>]
          \<and> length (group_message_listener g data prev) = length prev
          \<and> gmsg_id (group_message_listener g data prev ! i) = gev_id data
          \<and> gmsg_createdAt (group_message_listener g data prev ! i) = gev_timestamp data)
   \<and> (gev_groupId data = g \<and> \<not> group_pending data prev
        \<and> (\<exists>m\<in>set prev. gmsg_id m = gev_id data)
      \<longrightarrow> group_message_listener g data prev = prev)
   \<and> (gev_groupId data = g \<and> \<not> group_pending data prev
        \<and> \<not> (\<exists>m\<in>set prev. gmsg_id m = gev_id data)
      \<longrightarrow> group_message_listener g data prev
            = prev @ [\<lparr> gmsg_id = gev_id data, gmsg_groupId = gev_groupId data,
                         gmsg_sender = \<lparr> member_id = gev_senderId data,
                                         member_name = gev_senderName data,
                                         member_email = [] \<rparr>,
                         gmsg_content = gev_content data,
                         gmsg_isSystemMessage = gev_isSystemMessage data,
                         gmsg_createdAt = gev_timestamp data \<rparr>])
   \<and> (aev_roomId adata \<noteq> r \<longrightarrow> anonymous_message_listener r me adata aprev = aprev)
   \<and> (aev_roomId adata = r \<and> aev_clientId adata = Some ac \<and> ac \<noteq> [] \<and> ai < length aprev
        \<and> amsg_id (aprev ! ai) = ''temp_'' @ ac
        \<and> (\<forall>j<ai. amsg_id (aprev ! j) \<noteq> ''temp_'' @ ac)
      \<longrightarrow> anonymous_message_listener r me adata aprev
            = aprev[ai := \<lparr> amsg_id = aev_id adata,
                             amsg_anonymousName = aev_anonymousName adata,
                             amsg_content = aev_content adata,
                             amsg_createdAt = aev_createdAt adata,
                             amsg_isMe = Some (aev_anonymousName adata = me) \<rparr>]
          \<and> length (anonymous_message_listener r me adata aprev) = length aprev
          \<and> amsg_id (anonymous_message_listener r me adata aprev ! ai) = aev_id adata
          \<and> amsg_createdAt (anonymous_message_listener r me adata aprev ! ai)
            = aev_createdAt adata)
   \<and> (aev_roomId adata = r \<and> \<not> anonymous_pending adata aprev
        \<and> (\<exists>m\<in>set aprev. amsg_id m = aev_id adata)
      \<longrightarrow> anonymous_message_listener r me adata aprev = aprev)
   \<and> (aev_roomId adata = r \<and> \<not> anonymous_pending adata aprev
        \<and> \<not> (\<exists>m\<in>set aprev. amsg_id m = aev_id adata)
      \<longrightarrow> anonymous_message_listener r me adata aprev
            = aprev @ [\<lparr> amsg_id = aev_id adata,
                          amsg_anonymousName = aev_anonymousName adata,
                          amsg_content = aev_content adata,
                          amsg_createdAt = aev_createdAt adata,
                          amsg_isMe = Some (aev_anonymousName adata = me) \<rparr>])"
proof -
  have c1: "gev_groupId data \<noteq> g \<longrightarrow> group_message_listener g data prev = prev"
    by (simp add: group_message_listener_def)
  have c2: "gev_groupId data = g \<and> gev_clientId data = Some c \<and> c \<noteq> [] \<and> i < length prev
        \<and> gmsg_id (prev ! i) = ''temp_'' @ c \<and> (\<forall>j<i. gmsg_id (prev ! j) \<noteq> ''temp_'' @ c)
      \<longrightarrow> group_message_listener g data prev
            = prev[i := \<lparr> gmsg_id = gev_id data, gmsg_groupId = gev_groupId data,
                           gmsg_sender = \<lparr> member_id = gev_senderId data,
                                           member_name = gev_senderName data,
                                           member_email = [] \<rparr>,
                           gmsg_content = gev_content data,
                           gmsg_isSystemMessage = gev_isSystemMessage data,
                           gmsg_createdAt = gev_timestamp data \<rparr>]
          \<and> length (group_message_listener g data prev) = length prev
          \<and> gmsg_id (group_message_listener g data prev ! i) = gev_id data
          \<and> gmsg_createdAt (group_message_listener g data prev ! i) = gev_timestamp data"
  proof
    assume h: "gev_groupId data = g \<and> gev_clientId data = Some c \<and> c \<noteq> [] \<and> i < length prev
        \<and> gmsg_id (prev ! i) = ''temp_'' @ c \<and> (\<forall>j<i. gmsg_id (prev ! j) \<noteq> ''temp_'' @ c)"
    then have "group_message_update data prev = prev[i := group_message_of data]"
      by (intro group_update_replace [of data c i prev]) blast+
    with h show "group_message_listener g data prev
            = prev[i := \<lparr> gmsg_id = gev_id data, gmsg_groupId = gev_groupId data,
                           gmsg_sender = \<lparr> member_id = gev_senderId data,
                                           member_name = gev_senderName data,
                                           member_email = [] \<rparr>,
                           gmsg_content = gev_content data,
                           gmsg_isSystemMessage = gev_isSystemMessage data,
                           gmsg_createdAt = gev_timestamp data \<rparr>]
          \<and> length (group_message_listener g data prev) = length prev
          \<and> gmsg_id (group_message_listener g data prev ! i) = gev_id data
          \<and> gmsg_createdAt (group_message_listener g data prev ! i) = gev_timestamp data"
      by (simp add: group_message_listener_def group_message_of_def)
  qed
  have c3: "gev_groupId data = g \<and> \<not> group_pending data prev
        \<and> (\<exists>m\<in>set prev. gmsg_id m = gev_id data)
      \<longrightarrow> group_message_listener g data prev = prev"
    by (simp add: group_message_listener_def group_update_not_pending)
  have c4: "gev_groupId data = g \<and> \<not> group_pending data prev
        \<and> \<not> (\<exists>m\<in>set prev. gmsg_id m = gev_id data)
      \<longrightarrow> group_message_listener g data prev
            = prev @ [\<lparr> gmsg_id = gev_id data, gmsg_groupId = gev_groupId data,
                         gmsg_sender = \<lparr> member_id = gev_senderId data,
                                         member_name = gev_senderName data,
                                         member_email = [] \<rparr>,
                         gmsg_content = gev_content data,
                         gmsg_isSystemMessage = gev_isSystemMessage data,
                         gmsg_createdAt = gev_timestamp data \<rparr>]"
    by (simp add: group_message_listener_def group_update_not_pending group_message_of_def)
  have c5: "aev_roomId adata \<noteq> r \<longrightarrow> anonymous_message_listener r me adata aprev = aprev"
    by (simp add: anonymous_message_listener_def)
  have c6: "aev_roomId adata = r \<and> aev_clientId adata = Some ac \<and> ac \<noteq> [] \<and> ai < length aprev
        \<and> amsg_id (aprev ! ai) = ''temp_'' @ ac
        \<and> (\<forall>j<ai. amsg_id (aprev ! j) \<noteq> ''temp_'' @ ac)
      \<longrightarrow> anonymous_message_listener r me adata aprev
            = aprev[ai := \<lparr> amsg_id = aev_id adata,
                             amsg_anonymousName = aev_anonymousName adata,
                             amsg_content = aev_content adata,
                             amsg_createdAt = aev_createdAt adata,
                             amsg_isMe = Some (aev_anonymousName adata = me) \<rparr>]
          \<and> length (anonymous_message_listener r me adata aprev) = length aprev
          \<and> amsg_id (anonymous_message_listener r me adata aprev ! ai) = aev_id adata
          \<and> amsg_createdAt (anonymous_message_listener r me adata aprev ! ai)
            = aev_createdAt adata"
  proof
    assume h: "aev_roomId adata = r \<and> aev_clientId adata = Some ac \<and> ac \<noteq> [] \<and> ai < length aprev
        \<and> amsg_id (aprev ! ai) = ''temp_'' @ ac
        \<and> (\<forall>j<ai. amsg_id (aprev ! j) \<noteq> ''temp_'' @ ac)"
    then have "anonymous_message_update me adata aprev
        = aprev[ai := anonymous_message_of me adata]"
      by (intro anonymous_update_replace [of adata ac ai aprev]) blast+
    with h show "anonymous_message_listener r me adata aprev
            = aprev[ai := \<lparr> amsg_id = aev_id adata,
                             amsg_anonymousName = aev_anonymousName adata,
                             amsg_content = aev_content adata,
                             amsg_createdAt = aev_createdAt adata,
                             amsg_isMe = Some (aev_anonymousName adata = me) \<rparr>]
          \<and> length (anonymous_message_listener r me adata aprev) = length aprev
          \<and> amsg_id (anonymous_message_listener r me adata aprev ! ai) = aev_id adata
          \<and> amsg_createdAt (anonymous_message_listener r me adata aprev ! ai)
            = aev_createdAt adata"
      by (simp add: anonymous_message_listener_def anonymous_message_of_def)
  qed
  have c7: "aev_roomId adata = r \<and> \<not> anonymous_pending adata aprev
        \<and> (\<exists>m\<in>set aprev. amsg_id m = aev_id adata)
      \<longrightarrow> anonymous_message_listener r me adata aprev = aprev"
    by (simp add: anonymous_message_listener_def anonymous_update_not_pending)
  have c8: "aev_roomId adata = r \<and> \<not> anonymous_pending adata aprev
        \<and> \<not> (\<exists>m\<in>set aprev. amsg_id m = aev_id adata)
      \<longrightarrow> anonymous_message_listener r me adata aprev
            = aprev @ [\<lparr> amsg_id = aev_id adata,
                          amsg_anonymousName = aev_anonymousName adata,
                          amsg_content = aev_content adata,
                          amsg_createdAt = aev_createdAt adata,
                          amsg_isMe = Some (aev_anonymousName adata = me) \<rparr>]"
    by (simp add: anonymous_message_listener_def anonymous_update_not_pending
        anonymous_message_of_def)
  show ?thesis
    by (intro conjI c1 c2 c3 c4 c5 c6 c7 c8)
qed

theorem remote_event_order_witness:
  "group_message_listener ''g1'' (sample_group_event ''s1'' ''g2'' None)
       [sample_group_message ''m0'' ''g1'']
     = [sample_group_message ''m0'' ''g1'']
   \<and> group_message_listener ''g1'' (sample_group_event ''s1'' ''g1'' (Some ''5''))
       [sample_group_message ''m0'' ''g1'', sample_group_message ''temp_5'' ''g1'']
     = [sample_group_message ''m0'' ''g1'',
        \<lparr> gmsg_id = ''s1'', gmsg_groupId = ''g1'',
          gmsg_sender = \<lparr> member_id = ''u2'', member_name = ''Bob'', member_email = [] \<rparr>,
          gmsg_content = utf16 ''yo'', gmsg_isSystemMessage = False,
          gmsg_createdAt = ''2024-01-01T00:00:01.000Z'' \<rparr>]
   \<and> group_message_listener ''g1'' (sample_group_event ''m0'' ''g1'' None)
       [sample_group_message ''m0'' ''g1'']
     = [sample_group_message ''m0'' ''g1'']
   \<and> group_message_listener ''g1'' (sample_group_event ''s1'' ''g1'' None)
       [sample_group_message ''m0'' ''g1'']
     = [sample_group_message ''m0'' ''g1'',
        \<lparr> gmsg_id = ''s1'', gmsg_groupId = ''g1'',
          gmsg_sender = \<lparr> member_id = ''u2'', member_name = ''Bob'', member_email = [] \<rparr>,
          gmsg_content = utf16 ''yo'', gmsg_isSystemMessage = False,
          gmsg_createdAt = ''2024-01-01T00:00:01.000Z'' \<rparr>]
   \<and> anonymous_message_listener ''r1'' ''Fox'' (sample_anonymous_event ''s1'' ''r2'' None)
       [sample_anonymous_message ''m0'']
     = [sample_anonymous_message ''m0'']
   \<and> anonymous_message_listener ''r1'' ''Fox'' (sample_anonymous_event ''s1'' ''r1'' (Some ''5''))
       [sample_anonymous_message ''m0'', sample_anonymous_message ''temp_5'']
     = [sample_anonymous_message ''m0'',
        \<lparr> amsg_id = ''s1'', amsg_anonymousName = ''Owl'', amsg_content = utf16 ''yo'',
          amsg_createdAt = ''2024-01-01T00:00:01.000Z'', amsg_isMe = Some False \<rparr>]
   \<and> anonymous_message_listener ''r1'' ''Fox'' (sample_anonymous_event ''m0'' ''r1'' None)
       [sample_anonymous_message ''m0'']
     = [sample_anonymous_message ''m0'']
   \<and> anonymous_message_listener ''r1'' ''Fox'' (sample_anonymous_event ''s1'' ''r1'' None)
       [sample_anonymous_message ''m0'']
     = [sample_anonymous_message ''m0'',
        \<lparr> amsg_id = ''s1'', amsg_anonymousName = ''Owl'', amsg_content = utf16 ''yo'',
          amsg_createdAt = ''2024-01-01T00:00:01.000Z'', amsg_isMe = Some False \<rparr>]"
proof -
  note d = sample_group_event_def sample_group_message_def sample_anonymous_event_def
    sample_anonymous_message_def group_pending_def anonymous_pending_def
  have w1: "group_message_listener ''g1'' (sample_group_event ''s1'' ''g2'' None)
       [sample_group_message ''m0'' ''g1''] = [sample_group_message ''m0'' ''g1'']"
    using remote_event_order [where g = "''g1''" and data = "sample_group_event ''s1'' ''g2'' None"
        and prev = "[sample_group_message ''m0'' ''g1'']", THEN conjunct1]
    by (simp add: d)
  have h2: "gev_groupId (sample_group_event ''s1'' ''g1'' (Some ''5'')) = ''g1''
      \<and> gev_clientId (sample_group_event ''s1'' ''g1'' (Some ''5'')) = Some ''5''
      \<and> ''5'' \<noteq> [] \<and> Suc 0 < length [sample_group_message ''m0'' ''g1'',
            sample_group_message ''temp_5'' ''g1'']
      \<and> gmsg_id ([sample_group_message ''m0'' ''g1'', sample_group_message ''temp_5'' ''g1'']
            ! Suc 0) = ''temp_'' @ ''5''
      \<and> (\<forall>j<Suc 0. gmsg_id ([sample_group_message ''m0'' ''g1'',
            sample_group_message ''temp_5'' ''g1''] ! j) \<noteq> ''temp_'' @ ''5'')"
    by (simp add: d)
  have w2: "group_message_listener ''g1'' (sample_group_event ''s1'' ''g1'' (Some ''5''))
       [sample_group_message ''m0'' ''g1'', sample_group_message ''temp_5'' ''g1'']
     = [sample_group_message ''m0'' ''g1'',
        \<lparr> gmsg_id = ''s1'', gmsg_groupId = ''g1'',
          gmsg_sender = \<lparr> member_id = ''u2'', member_name = ''Bob'', member_email = [] \<rparr>,
          gmsg_content = utf16 ''yo'', gmsg_isSystemMessage = False,
          gmsg_createdAt = ''2024-01-01T00:00:01.000Z'' \<rparr>]"
    using remote_event_order [where g = "''g1''"
        and data = "sample_group_event ''s1'' ''g1'' (Some ''5'')"
        and prev = "[sample_group_message ''m0'' ''g1'', sample_group_message ''temp_5'' ''g1'']"
        and c = "''5''" and i = "Suc 0", THEN conjunct2, THEN conjunct1, rule_format, OF h2,
        THEN conjunct1]
    by (simp add: sample_group_event_def)
  have h3: "gev_groupId (sample_group_event ''m0'' ''g1'' None) = ''g1''
      \<and> \<not> group_pending (sample_group_event ''m0'' ''g1'' None)
            [sample_group_message ''m0'' ''g1'']
      \<and> (\<exists>m\<in>set [sample_group_message ''m0'' ''g1''].
            gmsg_id m = gev_id (sample_group_event ''m0'' ''g1'' None))"
    by (simp add: d)
  have w3: "group_message_listener ''g1'' (sample_group_event ''m0'' ''g1'' None)
       [sample_group_message ''m0'' ''g1''] = [sample_group_message ''m0'' ''g1'']"
    using remote_event_order [where g = "''g1''" and data = "sample_group_event ''m0'' ''g1'' None"
        and prev = "[sample_group_message ''m0'' ''g1'']",
        THEN conjunct2, THEN conjunct2, THEN conjunct1, rule_format, OF h3] .
  have h4: "gev_groupId (sample_group_event ''s1'' ''g1'' None) = ''g1''
      \<and> \<not> group_pending (sample_group_event ''s1'' ''g1'' None)
            [sample_group_message ''m0'' ''g1'']
      \<and> \<not> (\<exists>m\<in>set [sample_group_message ''m0'' ''g1''].
            gmsg_id m = gev_id (sample_group_event ''s1'' ''g1'' None))"
    by (simp add: d)
  have w4: "group_message_listener ''g1'' (sample_group_event ''s1'' ''g1'' None)
       [sample_group_message ''m0'' ''g1'']
     = [sample_group_message ''m0'' ''g1'',
        \<lparr> gmsg_id = ''s1'', gmsg_groupId = ''g1'',
          gmsg_sender = \<lparr> member_id = ''u2'', member_name = ''Bob'', member_email = [] \<rparr>,
          gmsg_content = utf16 ''yo'', gmsg_isSystemMessage = False,
          gmsg_createdAt = ''2024-01-01T00:00:01.000Z'' \<rparr>]"
    using remote_event_order [where g = "''g1''" and data = "sample_group_event ''s1'' ''g1'' None"
        and prev = "[sample_group_message ''m0'' ''g1'']",
        THEN conjunct2, THEN conjunct2, THEN conjunct2, THEN conjunct1, rule_format, OF h4]
    by (simp add: sample_group_event_def)
  have w5: "anonymous_message_listener ''r1'' ''Fox'' (sample_anonymous_event ''s1'' ''r2'' None)
       [sample_anonymous_message ''m0''] = [sample_anonymous_message ''m0'']"
    using remote_event_order [where r = "''r1''" and me = "''Fox''"
        and adata = "sample_anonymous_event ''s1'' ''r2'' None"
        and aprev = "[sample_anonymous_message ''m0'']",
        THEN conjunct2, THEN conjunct2, THEN conjunct2, THEN conjunct2, THEN conjunct1]
    by (simp add: d)
  have h6: "aev_roomId (sample_anonymous_event ''s1'' ''r1'' (Some ''5'')) = ''r1''
      \<and> aev_clientId (sample_anonymous_event ''s1'' ''r1'' (Some ''5'')) = Some ''5''
      \<and> ''5'' \<noteq> [] \<and> Suc 0 < length [sample_anonymous_message ''m0'',
            sample_anonymous_message ''temp_5'']
      \<and> amsg_id ([sample_anonymous_message ''m0'', sample_anonymous_message ''temp_5'']
            ! Suc 0) = ''temp_'' @ ''5''
      \<and> (\<forall>j<Suc 0. amsg_id ([sample_anonymous_message ''m0'',
            sample_anonymous_message ''temp_5''] ! j) \<noteq> ''temp_'' @ ''5'')"
    by (simp add: d)
  have w6: "anonymous_message_listener ''r1'' ''Fox''
       (sample_anonymous_event ''s1'' ''r1'' (Some ''5''))
       [sample_anonymous_message ''m0'', sample_anonymous_message ''temp_5'']
     = [sample_anonymous_message ''m0'',
        \<lparr> amsg_id = ''s1'', amsg_anonymousName = ''Owl'', amsg_content = utf16 ''yo'',
          amsg_createdAt = ''2024-01-01T00:00:01.000Z'', amsg_isMe = Some False \<rparr>]"
    using remote_event_order [where r = "''r1''" and me = "''Fox''"
        and adata = "sample_anonymous_event ''s1'' ''r1'' (Some ''5'')"
        and aprev = "[sample_anonymous_message ''m0'', sample_anonymous_message ''temp_5'']"
        and ac = "''5''" and ai = "Suc 0",
        THEN conjunct2, THEN conjunct2, THEN conjunct2, THEN conjunct2, THEN conjunct2,
        THEN conjunct1, rule_format, OF h6, THEN conjunct1]
    by (simp add: sample_anonymous_event_def)
  have h7: "aev_roomId (sample_anonymous_event ''m0'' ''r1'' None) = ''r1''
      \<and> \<not> anonymous_pending (sample_anonymous_event ''m0'' ''r1'' None)
            [sample_anonymous_message ''m0'']
      \<and> (\<exists>m\<in>set [sample_anonymous_message ''m0''].
            amsg_id m = aev_id (sample_anonymous_event ''m0'' ''r1'' None))"
    by (simp add: d)
  have w7: "anonymous_message_listener ''r1'' ''Fox'' (sample_anonymous_event ''m0'' ''r1'' None)
       [sample_anonymous_message ''m0''] = [sample_anonymous_message ''m0'']"
    using remote_event_order [where r = "''r1''" and me = "''Fox''"
        and adata = "sample_anonymous_event ''m0'' ''r1'' None"
        and aprev = "[sample_anonymous_message ''m0'']",
        THEN conjunct2, THEN conjunct2, THEN conjunct2, THEN conjunct2, THEN conjunct2,
        THEN conjunct2, THEN conjunct1, rule_format, OF h7] .
  have h8: "aev_roomId (sample_anonymous_event ''s1'' ''r1'' None) = ''r1''
      \<and> \<not> anonymous_pending (sample_anonymous_event ''s1'' ''r1'' None)
            [sample_anonymous_message ''m0'']
      \<and> \<not> (\<exists>m\<in>set [sample_anonymous_message ''m0''].
            amsg_id m = aev_id (sample_anonymous_event ''s1'' ''r1'' None))"
    by (simp add: d)
  have w8: "anonymous_message_listener ''r1'' ''Fox'' (sample_anonymous_event ''s1'' ''r1'' None)
       [sample_anonymous_message ''m0'']
     = [sample_anonymous_message ''m0'',
        \<lparr> amsg_id = ''s1'', amsg_anonymousName = ''Owl'', amsg_content = utf16 ''yo'',
          amsg_createdAt = ''2024-01-01T00:00:01.000Z'', amsg_isMe = Some False \<rparr>]"
    using remote_event_order [where r = "''r1''" and me = "''Fox''"
        and adata = "sample_anonymous_event ''s1'' ''r1'' None"
        and aprev = "[sample_anonymous_message ''m0'']",
        THEN conjunct2, THEN conjunct2, THEN conjunct2, THEN conjunct2, THEN conjunct2,
        THEN conjunct2, THEN conjunct2, rule_format, OF h8]
    by (simp add: sample_anonymous_event_def)
  show ?thesis
    by (intro conjI w1 w2 w3 w4 w5 w6 w7 w8)
qed

section \<open>Delivering an event twice\<close>

lemma group_update_reconcile:
  "group_message_update data prev =
     reconcile gmsg_id (gev_clientId data) (gev_id data) (group_message_of data) prev"
  by (simp add: group_message_update_def reconcile_def)

lemma anonymous_update_reconcile:
  "anonymous_message_update me data prev =
     reconcile amsg_id (aev_clientId data) (aev_id data) (anonymous_message_of me data) prev"
  by (simp add: anonymous_message_update_def reconcile_def)

lemma group_pending_eq: "group_pending data prev = pending gmsg_id (gev_clientId data) prev"
  by (simp add: group_pending_def pending_def)

lemma anonymous_pending_eq:
  "anonymous_pending data prev = pending amsg_id (aev_clientId data) prev"
  by (simp add: anonymous_pending_def pending_def)

lemma reconcile_pending:
  assumes "pending idf clientId prev"
  shows "\<exists>c i. clientId = Some c \<and> i < length prev \<and> idf (prev ! i) = ''temp_'' @ c
           \<and> reconcile idf clientId sid built prev = prev[i := built]"
proof -
  from assms obtain c where c: "clientId = Some c" "c \<noteq> []" "\<exists>m\<in>set prev. idf m = ''temp_'' @ c"
    by (auto simp: pending_def split: option.splits)
  from findIndex_found [OF c(3)] obtain i where
    i: "findIndex (\<lambda>m. idf m = ''temp_'' @ c) prev = int i" "i < length prev"
       "idf (prev ! i) = ''temp_'' @ c"
    by blast
  from c i have "reconcile idf clientId sid built prev = prev[i := built]"
    by (simp add: reconcile_def)
  with c i show ?thesis by blast
qed

lemma reconcile_not_pending:
  assumes "\<not> pending idf clientId prev"
  shows "reconcile idf clientId sid built prev =
    (if sid \<in> idf ` set prev then prev else prev @ [built])"
proof -
  have "(case clientId of None \<Rightarrow> - 1
         | Some c \<Rightarrow> if c = [] then - 1 else findIndex (\<lambda>m. idf m = ''temp_'' @ c) prev) = - 1"
    using assms by (auto simp: pending_def findIndex_none_iff split: option.splits)
  then show ?thesis by (auto simp add: reconcile_def some_iff)
qed

lemma count_distinct_id:
  "distinct (map idf xs) \<Longrightarrow> y \<in> idf ` set xs \<Longrightarrow> length (filter (\<lambda>m. idf m = y) xs) = 1"
proof (induction xs)
  case Nil
  then show ?case by simp
next
  case (Cons x xs)
  show ?case
  proof (cases "idf x = y")
    case True
    with Cons.prems have "y \<notin> idf ` set xs" by simp
    then have "\<forall>m\<in>set xs. idf m \<noteq> y" by blast
    then have "filter (\<lambda>m. idf m = y) xs = []" by (simp add: filter_empty_conv)
    with True show ?thesis by simp
  next
    case False
    with Cons show ?thesis by auto
  qed
qed

lemma reconcile_twice:
  assumes built: "idf built = sid"
    and dist: "distinct (map idf prev)"
    and fresh: "sid \<notin> idf ` set prev \<or> \<not> pending idf clientId prev"
  shows "reconcile idf clientId sid built (reconcile idf clientId sid built prev)
           = reconcile idf clientId sid built prev
         \<and> length (filter (\<lambda>m. idf m = sid) (reconcile idf clientId sid built prev)) = 1"
proof (cases "pending idf clientId prev")
  case True
  with fresh have nsid: "sid \<notin> idf ` set prev" by blast
  from reconcile_pending [OF True, of sid built] obtain c i where
    ci: "clientId = Some c" "i < length prev" "idf (prev ! i) = ''temp_'' @ c"
        "reconcile idf clientId sid built prev = prev[i := built]"
    by blast
  let ?T1 = "prev[i := built]"
  have ids1: "map idf ?T1 = (map idf prev)[i := sid]"
    by (simp add: map_update built)
  have set1: "set (map idf ?T1) = insert sid (set (map idf prev) - {''temp_'' @ c})"
    using dist ci(2,3) by (simp add: ids1 set_update_distinct)
  have d1: "distinct (map idf ?T1)"
    unfolding ids1 using dist nsid by (intro distinct_list_update) auto
  from nsid ci(2,3) have ne: "sid \<noteq> ''temp_'' @ c"
    by (metis imageI nth_mem)
  have "\<not> pending idf clientId ?T1"
  proof
    assume "pending idf clientId ?T1"
    with ci(1) obtain m where "m \<in> set ?T1" "idf m = ''temp_'' @ c"
      by (auto simp: pending_def)
    then have "''temp_'' @ c \<in> set (map idf ?T1)"
      by (metis imageI set_map)
    with set1 ne show False by auto
  qed
  moreover have in1: "sid \<in> idf ` set ?T1"
    using set1 by (metis insertI1 set_map)
  ultimately have "reconcile idf clientId sid built ?T1 = ?T1"
    by (simp add: reconcile_not_pending)
  moreover have "length (filter (\<lambda>m. idf m = sid) ?T1) = 1"
    using d1 in1 by (rule count_distinct_id)
  ultimately show ?thesis by (simp add: ci(4))
next
  case False
  show ?thesis
  proof (cases "sid \<in> idf ` set prev")
    case True
    with False have "reconcile idf clientId sid built prev = prev"
      by (simp add: reconcile_not_pending)
    moreover have "length (filter (\<lambda>m. idf m = sid) prev) = 1"
      using dist True by (rule count_distinct_id)
    ultimately show ?thesis by simp
  next
    case nin: False
    let ?T1 = "prev @ [built]"
    from False nin have r1: "reconcile idf clientId sid built prev = ?T1"
      by (simp add: reconcile_not_pending)
    have d1: "distinct (map idf ?T1)" using dist nin built by auto
    have in1: "sid \<in> idf ` set ?T1" using built by simp
    have cnt: "length (filter (\<lambda>m. idf m = sid) ?T1) = 1"
      using d1 in1 by (rule count_distinct_id)
    have "reconcile idf clientId sid built ?T1 = ?T1"
    proof (cases "pending idf clientId ?T1")
      case p: True
      from reconcile_pending [OF p, of sid built] obtain c i where
        ci: "clientId = Some c" "i < length ?T1" "idf (?T1 ! i) = ''temp_'' @ c"
            "reconcile idf clientId sid built ?T1 = ?T1[i := built]"
        by blast
      have "i = length prev"
      proof (rule ccontr)
        assume "i \<noteq> length prev"
        with ci(2) have il: "i < length prev" by simp
        with ci(3) have "idf (prev ! i) = ''temp_'' @ c" by (simp add: nth_append)
        with il have "\<exists>m\<in>set prev. idf m = ''temp_'' @ c" by (metis nth_mem)
        moreover from p ci(1) have "c \<noteq> []" by (simp add: pending_def)
        ultimately have "pending idf clientId prev" using ci(1) by (simp add: pending_def)
        with False show False by blast
      qed
      with ci(4) show ?thesis by simp
    next
      case np: False
      from reconcile_not_pending [OF np, of sid built] in1 show ?thesis by simp
    qed
    with r1 cnt show ?thesis by simp
  qed
qed

lemma group_listener_twice:
  assumes "gev_groupId data = g" "distinct (map gmsg_id prev)"
    "gev_id data \<notin> gmsg_id ` set prev \<or> \<not> group_pending data prev"
  shows "group_message_listener g data (group_message_listener g data prev)
           = group_message_listener g data prev
         \<and> length (filter (\<lambda>m. gmsg_id m = gev_id data)
              (group_message_listener g data (group_message_listener g data prev))) = 1"
proof -
  have b: "gmsg_id (group_message_of data) = gev_id data"
    by (simp add: group_message_of_def)
  from assms(3) have f: "gev_id data \<notin> gmsg_id ` set prev
      \<or> \<not> pending gmsg_id (gev_clientId data) prev"
    by (simp add: group_pending_eq)
  from reconcile_twice [OF b assms(2) f] assms(1) show ?thesis
    by (simp add: group_message_listener_def group_update_reconcile)
qed

lemma anonymous_listener_twice:
  assumes "aev_roomId data = r" "distinct (map amsg_id prev)"
    "aev_id data \<notin> amsg_id ` set prev \<or> \<not> anonymous_pending data prev"
  shows "anonymous_message_listener r me data (anonymous_message_listener r me data prev)
           = anonymous_message_listener r me data prev
         \<and> length (filter (\<lambda>m. amsg_id m = aev_id data)
              (anonymous_message_listener r me data
                 (anonymous_message_listener r me data prev))) = 1"
proof -
  have b: "amsg_id (anonymous_message_of me data) = aev_id data"
    by (simp add: anonymous_message_of_def)
  from assms(3) have f: "aev_id data \<notin> amsg_id ` set prev
      \<or> \<not> pending amsg_id (aev_clientId data) prev"
    by (simp add: anonymous_pending_eq)
  from reconcile_twice [OF b assms(2) f] assms(1) show ?thesis
    by (simp add: anonymous_message_listener_def anonymous_update_reconcile)
qed

text \<open>
  C2, as amended. In the group view and in the anonymous room view: when the event belongs
  to the active conversation, the ids of the transcript are pairwise distinct, and the
  transcript does not hold the event's server id next to a pending entry for the event's
  correlation id, delivering the event twice gives the transcript of the first delivery,
  and it holds exactly one message with the event's server id.
\<close>

theorem remote_delivery_twice:
  "(gev_groupId data = g \<and> distinct (map gmsg_id prev)
      \<and> (gev_id data \<notin> gmsg_id ` set prev \<or> \<not> group_pending data prev)
    \<longrightarrow> group_message_listener g data (group_message_listener g data prev)
           = group_message_listener g data prev
        \<and> length (filter (\<lambda>m. gmsg_id m = gev_id data)
              (group_message_listener g data (group_message_listener g data prev))) = 1)
   \<and> (aev_roomId adata = r \<and> distinct (map amsg_id aprev)
      \<and> (aev_id adata \<notin> amsg_id ` set aprev \<or> \<not> anonymous_pending adata aprev)
    \<longrightarrow> anonymous_message_listener r me adata (anonymous_message_listener r me adata aprev)
           = anonymous_message_listener r me adata aprev
        \<and> length (filter (\<lambda>m. amsg_id m = aev_id adata)
              (anonymous_message_listener r me adata
                 (anonymous_message_listener r me adata aprev))) = 1)"
  using group_listener_twice [of data g prev] anonymous_listener_twice [of adata r aprev me]
  by blast

theorem remote_delivery_twice_witness:
  "length (filter (\<lambda>m. gmsg_id m = ''s1'')
      (group_message_listener ''g1'' (sample_group_event ''s1'' ''g1'' (Some ''5''))
        (group_message_listener ''g1'' (sample_group_event ''s1'' ''g1'' (Some ''5''))
          [sample_group_message ''m0'' ''g1'', sample_group_message ''temp_5'' ''g1'']))) = 1
   \<and> length (filter (\<lambda>m. amsg_id m = ''s1'')
      (anonymous_message_listener ''r1'' ''Fox'' (sample_anonymous_event ''s1'' ''r1'' None)
        (anonymous_message_listener ''r1'' ''Fox'' (sample_anonymous_event ''s1'' ''r1'' None)
          [sample_anonymous_message ''m0'']))) = 1"
proof -
  note d = sample_group_event_def sample_group_message_def sample_anonymous_event_def
    sample_anonymous_message_def
  have hg: "gev_groupId (sample_group_event ''s1'' ''g1'' (Some ''5'')) = ''g1''
      \<and> distinct (map gmsg_id
           [sample_group_message ''m0'' ''g1'', sample_group_message ''temp_5'' ''g1''])
      \<and> (gev_id (sample_group_event ''s1'' ''g1'' (Some ''5''))
            \<notin> gmsg_id ` set [sample_group_message ''m0'' ''g1'',
                              sample_group_message ''temp_5'' ''g1'']
          \<or> \<not> group_pending (sample_group_event ''s1'' ''g1'' (Some ''5''))
               [sample_group_message ''m0'' ''g1'', sample_group_message ''temp_5'' ''g1''])"
    by (simp add: d)
  have ha: "aev_roomId (sample_anonymous_event ''s1'' ''r1'' None) = ''r1''
      \<and> distinct (map amsg_id [sample_anonymous_message ''m0''])
      \<and> (aev_id (sample_anonymous_event ''s1'' ''r1'' None)
            \<notin> amsg_id ` set [sample_anonymous_message ''m0'']
          \<or> \<not> anonymous_pending (sample_anonymous_event ''s1'' ''r1'' None)
               [sample_anonymous_message ''m0''])"
    by (simp add: d)
  have ig: "gev_id (sample_group_event ''s1'' ''g1'' (Some ''5'')) = ''s1''"
    by (simp add: d)
  have ia: "aev_id (sample_anonymous_event ''s1'' ''r1'' None) = ''s1''"
    by (simp add: d)
  from remote_delivery_twice [where g = "''g1''"
      and data = "sample_group_event ''s1'' ''g1'' (Some ''5'')"
      and prev = "[sample_group_message ''m0'' ''g1'', sample_group_message ''temp_5'' ''g1'']"
      and r = "''r1''" and me = "''Fox''"
      and adata = "sample_anonymous_event ''s1'' ''r1'' None"
      and aprev = "[sample_anonymous_message ''m0'']"] hg ha
  show ?thesis unfolding ig ia by blast
qed

text \<open>
  The claim as stated fails: the \<open>receive-message\<close> listener of the direct chat window has
  no duplicate check, so the same event delivered twice leaves two entries with its id;
  in the group view an event of another group leaves none, and two stale entries with the
  same \<open>temp_\<close> id are both turned into the event's message.
\<close>

theorem remote_delivery_twice_counterexample:
  "length (filter (\<lambda>m. msg_id m = ''s1'')
      (fst (receive_message_listener ''f1'' None (sample_direct_event ''s1'' ''f1'')
        (fst (receive_message_listener ''f1'' None (sample_direct_event ''s1'' ''f1'') []))))) = 2
   \<and> length (filter (\<lambda>m. gmsg_id m = ''s1'')
      (group_message_listener ''g1'' (sample_group_event ''s1'' ''g2'' None)
        (group_message_listener ''g1'' (sample_group_event ''s1'' ''g2'' None) []))) = 0
   \<and> length (filter (\<lambda>m. gmsg_id m = ''s1'')
      (group_message_listener ''g1'' (sample_group_event ''s1'' ''g1'' (Some ''5''))
        (group_message_listener ''g1'' (sample_group_event ''s1'' ''g1'' (Some ''5''))
          [sample_group_message ''temp_5'' ''g1'', sample_group_message ''temp_5'' ''g1'']))) = 2"
  by (simp add: receive_message_listener_def sample_direct_event_def
      group_message_listener_def group_message_update_def sample_group_event_def
      sample_group_message_def group_message_of_def)

section \<open>Failure of a send\<close>

lemma toString_digit: "n < 10 \<Longrightarrow> toString n = [digit_char n]"
  by (simp add: toString.simps)

lemma digit_char_5: "digit_char 5 = CHR ''5''"
  by (simp add: digit_char_def)

lemma toString_5: "toString 5 = ''5''"
  by (simp add: toString_digit digit_char_5)

lemma trim_hi: "trim (utf16 '' hi '') = utf16 ''hi''"
  by (simp add: trim_def is_ws_def utf16_def)

lemma emit_not_connected:
  "\<not> isConnected service \<Longrightarrow>
     emit event data service = [Console_warn (''Socket not connected, cannot emit: '' @ event)]"
  by (simp add: emit_def isConnected_def)

lemma emit_connected:
  "isConnected service \<Longrightarrow> emit event data service = [Transport_emit event data]"
  by (simp add: emit_def isConnected_def)

text \<open>
  C3, as amended. A group send that was issued carries the correlation id
  \<open>Date.now().toString()\<close>; when its request is rejected, on whatever the view state is
  by then, every entry with id \<open>temp_\<close> plus that id is gone from the transcript, an error
  toast is raised, and no request is issued again. Anonymous and direct sends go through
  \<open>emit\<close>, which reports nothing back: over an unconnected socket the message is
  dropped with a console warning and the entry that was appended stays.
\<close>

theorem send_failure:
  "(trim (gc_newMessage s0) \<noteq> [] \<longrightarrow>
      snd (snd (group_handleSendMessage e user now stamp s0)) = Some (toString now)
      \<and> ''temp_'' @ toString now
          \<in> gmsg_id ` set (gc_messages (fst (group_handleSendMessage e user now stamp s0))))
   \<and> ''temp_'' @ c
        \<notin> gmsg_id ` set (gc_messages (fst (group_handleSendMessage_settled Rejected c s)))
   \<and> Toast_error ''Failed to send message''
        \<in> set (snd (group_handleSendMessage_settled Rejected c s))
   \<and> filter is_network (snd (group_handleSendMessage_settled Rejected c s)) = []
   \<and> (trim (ac_newMessage a) \<noteq> [] \<and> \<not> isConnected service \<longrightarrow>
        snd (anonymous_handleSendMessage r me now stamp service a)
          = [Console_warn ''Socket not connected, cannot emit: send-anonymous-message'']
        \<and> ''temp_'' @ toString now
            \<in> amsg_id ` set (ac_messages
                 (fst (anonymous_handleSendMessage r me now stamp service a))))
   \<and> (trim (cw_newMessage w) \<noteq> [] \<and> \<not> isConnected service \<longrightarrow>
        snd (direct_handleSendMessage user now stamp service w)
          = [PreventDefault, Console_warn ''Socket not connected, cannot emit: send-message'']
        \<and> toString now
            \<in> msg_id ` set (cw_messages (fst (direct_handleSendMessage user now stamp service w))))"
proof -
  have g1: "trim (gc_newMessage s0) \<noteq> [] \<longrightarrow>
      snd (snd (group_handleSendMessage e user now stamp s0)) = Some (toString now)
      \<and> ''temp_'' @ toString now
          \<in> gmsg_id ` set (gc_messages (fst (group_handleSendMessage e user now stamp s0)))"
    by (simp add: group_handleSendMessage_def Let_def)
  have g2: "''temp_'' @ c
        \<notin> gmsg_id ` set (gc_messages (fst (group_handleSendMessage_settled Rejected c s)))"
    by (auto simp: group_handleSendMessage_settled_def group_rollback_def)
  have g3: "Toast_error ''Failed to send message''
        \<in> set (snd (group_handleSendMessage_settled Rejected c s))"
    by (simp add: group_handleSendMessage_settled_def)
  have g4: "filter is_network (snd (group_handleSendMessage_settled Rejected c s)) = []"
    by (simp add: group_handleSendMessage_settled_def)
  have a1: "trim (ac_newMessage a) \<noteq> [] \<and> \<not> isConnected service \<longrightarrow>
        snd (anonymous_handleSendMessage r me now stamp service a)
          = [Console_warn ''Socket not connected, cannot emit: send-anonymous-message'']
        \<and> ''temp_'' @ toString now
            \<in> amsg_id ` set (ac_messages
                 (fst (anonymous_handleSendMessage r me now stamp service a)))"
    by (simp add: anonymous_handleSendMessage_def Let_def emit_not_connected)
  have d1: "trim (cw_newMessage w) \<noteq> [] \<and> \<not> isConnected service \<longrightarrow>
        snd (direct_handleSendMessage user now stamp service w)
          = [PreventDefault, Console_warn ''Socket not connected, cannot emit: send-message'']
        \<and> toString now
            \<in> msg_id ` set (cw_messages (fst (direct_handleSendMessage user now stamp service w)))"
    by (simp add: direct_handleSendMessage_def Let_def emit_not_connected)
  show ?thesis
    by (intro conjI g1 g2 g3 g4 a1 d1)
qed

theorem send_failure_witness:
  "snd (snd (group_handleSendMessage True None 5 ''t'' (sample_group_view (utf16 '' hi '')))) = Some ''5''
   \<and> ''temp_5'' \<in> gmsg_id ` set (gc_messages
        (fst (group_handleSendMessage True None 5 ''t'' (sample_group_view (utf16 '' hi '')))))
   \<and> ''temp_5'' \<notin> gmsg_id ` set (gc_messages
        (fst (group_handleSendMessage_settled Rejected ''5''
          (fst (group_handleSendMessage True None 5 ''t'' (sample_group_view (utf16 '' hi '')))))))
   \<and> snd (anonymous_handleSendMessage ''r1'' ''Fox'' 5 ''t'' new_SocketService
          (sample_anonymous_view (utf16 '' hi '')))
       = [Console_warn ''Socket not connected, cannot emit: send-anonymous-message'']
   \<and> snd (direct_handleSendMessage None 5 ''t'' new_SocketService (sample_chat_window (utf16 '' hi '')))
       = [PreventDefault, Console_warn ''Socket not connected, cannot emit: send-message'']"
proof -
  have hg: "trim (gc_newMessage (sample_group_view (utf16 '' hi ''))) \<noteq> []"
    by (simp add: sample_group_view_def trim_hi)
  have ha: "trim (ac_newMessage (sample_anonymous_view (utf16 '' hi ''))) \<noteq> []
      \<and> \<not> isConnected new_SocketService"
    by (simp add: sample_anonymous_view_def trim_hi isConnected_def new_SocketService_def)
  have hd: "trim (cw_newMessage (sample_chat_window (utf16 '' hi ''))) \<noteq> []
      \<and> \<not> isConnected new_SocketService"
    by (simp add: sample_chat_window_def trim_hi isConnected_def new_SocketService_def)
  from send_failure [where ?s0.0 = "sample_group_view (utf16 '' hi '')" and e = True and user = None
      and now = 5 and stamp = "''t''" and c = "''5''"
      and s = "fst (group_handleSendMessage True None 5 ''t'' (sample_group_view (utf16 '' hi '')))"
      and a = "sample_anonymous_view (utf16 '' hi '')" and service = new_SocketService
      and r = "''r1''" and me = "''Fox''" and w = "sample_chat_window (utf16 '' hi '')"]
    hg ha hd
  show ?thesis unfolding toString_5 by simp
qed

text \<open>
  The claim as stated fails for an anonymous send: over a service that is not connected
  the message is dropped, yet the entry \<open>temp_5\<close> stays in the transcript, and the only
  effect is a console warning.
\<close>

theorem send_failure_counterexample:
  "''temp_5'' \<in> amsg_id ` set (ac_messages
      (fst (anonymous_handleSendMessage ''r1'' ''Fox'' 5 ''t'' new_SocketService
         (sample_anonymous_view (utf16 '' hi '')))))
   \<and> snd (anonymous_handleSendMessage ''r1'' ''Fox'' 5 ''t'' new_SocketService
          (sample_anonymous_view (utf16 '' hi '')))
       = [Console_warn ''Socket not connected, cannot emit: send-anonymous-message'']"
  by (simp add: anonymous_handleSendMessage_def sample_anonymous_view_def trim_hi Let_def
      toString_5 emit_def new_SocketService_def)

section \<open>A history load that settles after a switch\<close>

text \<open>
  C4, as amended. A history load that is fulfilled replaces the transcript with its
  result whatever conversation the view shows by then: the load carries no tag, the id it
  was requested for is not compared with the active one, and nothing is discarded. This
  holds in the group view and in the direct chat window, after any earlier events.
\<close>

theorem history_load_overwrites:
  "gc_messages (group_view_run (evs @ [Messages_loaded requested data]) s) = data
   \<and> gc_group_id (group_view_run (evs @ [Messages_loaded requested data]) s)
       = gc_group_id (group_view_run evs s)
   \<and> cw_messages (chat_window_run (wevs @ [History_loaded wrequested history]) w) = history
   \<and> cw_friend_id (chat_window_run (wevs @ [History_loaded wrequested history]) w)
       = cw_friend_id (chat_window_run wevs w)"
  by (simp add: group_view_run_def chat_window_run_def loadMessages_fulfilled_def
      loadHistory_fulfilled_def)

text \<open>
  The claim as stated fails: a group view mounted on \<open>A\<close> is switched to \<open>B\<close> while the
  load for \<open>A\<close> is in flight; when that load is fulfilled the view shows \<open>B\<close> with the
  history of \<open>A\<close> as its transcript. The same happens in the direct chat window.
\<close>

theorem history_load_overwrites_counterexample:
  "gc_group_id (group_view_run
       [Group_switched ''B'', Messages_loaded ''A'' [sample_group_message ''a1'' ''A'']]
       (group_view_mount ''A'')) = ''B''
   \<and> gc_messages (group_view_run
       [Group_switched ''B'', Messages_loaded ''A'' [sample_group_message ''a1'' ''A'']]
       (group_view_mount ''A'')) = [sample_group_message ''a1'' ''A'']
   \<and> cw_friend_id (chat_window_run
       [Friend_switched ''B'', History_loaded ''A'' [sample_message ''a1'' ''A'']]
       (chat_window_mount ''A'')) = ''B''
   \<and> cw_messages (chat_window_run
       [Friend_switched ''B'', History_loaded ''A'' [sample_message ''a1'' ''A'']]
       (chat_window_mount ''A'')) = [sample_message ''a1'' ''A'']"
  by (simp add: group_view_run_def chat_window_run_def group_view_mount_def
      chat_window_mount_def loadMessages_def loadHistory_def loadMessages_fulfilled_def
      loadHistory_fulfilled_def)

section \<open>The listener registry across a reconnect\<close>


lemma connected_Socket_on [simp]: "connected (Socket_on ev cb k) = connected k"
  by (simp add: Socket_on_def)


lemma connected_attach_entry [simp]:
  "connected (foldl (\<lambda>k2 cb. Socket_on ev' cb k2) k cbs) = connected k"
  by (induction cbs arbitrary: k) auto


lemma connected_reregister [simp]: "connected (reregister ls k) = connected k"
  unfolding reregister_def by (induction ls arbitrary: k) auto



lemma attached_transport_connected [simp]:
  "attached ev (transport_connected s) = attached ev s"
  by (simp add: attached_def transport_connected_def Socket_dispatch_def split: option.splits)



lemma listeners_on:
  "listeners (on ev cb s) = AList.update ev (Set_add cb (registered ev s)) (listeners s)"
proof (cases "map_of (listeners s) ev")
  case None
  then show ?thesis
    by (simp add: on_def registered_def Let_def update_conv' Set_add_def)
next
  case (Some cbs)
  then show ?thesis
    by (simp add: on_def registered_def Let_def)
qed

lemma registered_on:
  "registered ev' (on ev cb s)
     = (if ev' = ev then Set_add cb (registered ev s) else registered ev' s)"
  by (simp add: registered_def listeners_on update_conv')







lemma abandoned_on: "abandoned (on ev cb s) = abandoned s"
  by (simp add: on_def Let_def)









section \<open>Registering and removing a callback twice\<close>

lemma Set_add_twice: "Set_add x (Set_add x xs) = Set_add x xs"
  by (simp add: Set_add_def)

lemma on_twice_registry: "listeners (on ev cb (on ev cb s)) = listeners (on ev cb s)"
  by (simp add: listeners_on registered_on Set_add_twice)

lemma on_twice_unattached:
  "socket s = None \<Longrightarrow> on ev cb (on ev cb s) = on ev cb s"
proof -
  assume n: "socket s = None"
  then have "socket (on ev cb s) = None" by (simp add: on_def Let_def)
  then have "socket (on ev cb (on ev cb s)) = socket (on ev cb s)"
    by (simp add: on_def Let_def)
  moreover have "abandoned (on ev cb (on ev cb s)) = abandoned (on ev cb s)"
    by (simp add: abandoned_on)
  ultimately show ?thesis
    using on_twice_registry [of ev cb s] by simp
qed

lemma update_same: "map_of ls k = Some v \<Longrightarrow> AList.update k v ls = ls"
  by (induction ls) (auto split: if_splits)

lemma off_absent:
  assumes "cb \<notin> set (registered ev s)"
    and "case socket s of None \<Rightarrow> True | Some k \<Rightarrow> (ev, cb) \<notin> set (callbacks k)"
  shows "off ev cb s = s"
proof -
  have l: "(case map_of (listeners s) ev of None \<Rightarrow> listeners s
            | Some cbs \<Rightarrow> AList.update ev (Set_delete cb cbs) (listeners s)) = listeners s"
    using assms(1)
    by (auto simp: registered_def Set_delete_def update_same split: option.splits)
  have k: "(case socket s of None \<Rightarrow> None | Some k \<Rightarrow> Some (Socket_off ev cb k)) = socket s"
    using assms(2) by (auto simp: Socket_off_def remove1_idem split: option.splits)
  show ?thesis unfolding off_def l k by simp
qed

text \<open>
  C9. The registry holds a callback registered twice only once, but \<open>on\<close> attaches it
  to a live socket at every call: on a connected service, registering the same callback
  twice and delivering one event invokes it twice. One removal then empties the registry
  entry and leaves the callback attached once, so the event still invokes it, and a
  second removal is not a no-op.
\<close>

theorem double_registration_invoked_twice:
  "registered ''group-message''
      (on ''group-message'' (Callback 1) (on ''group-message'' (Callback 1)
        (service_run [Connect (Some ''tok''), Handshake]))) = [Callback 1]
   \<and> deliver ''group-message''
      (on ''group-message'' (Callback 1) (on ''group-message'' (Callback 1)
        (service_run [Connect (Some ''tok''), Handshake]))) = [Callback 1, Callback 1]
   \<and> registered ''group-message''
      (off ''group-message'' (Callback 1)
        (on ''group-message'' (Callback 1) (on ''group-message'' (Callback 1)
          (service_run [Connect (Some ''tok''), Handshake])))) = []
   \<and> deliver ''group-message''
      (off ''group-message'' (Callback 1)
        (on ''group-message'' (Callback 1) (on ''group-message'' (Callback 1)
          (service_run [Connect (Some ''tok''), Handshake])))) = [Callback 1]
   \<and> deliver ''group-message''
      (off ''group-message'' (Callback 1) (off ''group-message'' (Callback 1)
        (on ''group-message'' (Callback 1) (on ''group-message'' (Callback 1)
          (service_run [Connect (Some ''tok''), Handshake]))))) = []"
  by (simp add: service_run_def new_SocketService_def connect_def transport_connected_def
      on_def off_def deliver_def registered_def reregister_def io_def Socket_on_def
      Socket_off_def Socket_dispatch_def Set_add_def Set_delete_def Let_def)

section \<open>Correlation ids\<close>

lemma digit_char_is_digit: "d < 10 \<Longrightarrow> is_digit (digit_char d)"
  unfolding is_digit_def digit_char_def by (rule nth_mem) simp

lemma digit_char_inj: "d < 10 \<Longrightarrow> d' < 10 \<Longrightarrow> digit_char d = digit_char d' \<Longrightarrow> d = d'"
proof -
  assume a: "d < 10" "d' < 10" "digit_char d = digit_char d'"
  have "distinct ''0123456789''" by simp
  moreover from a have "d < length ''0123456789''" "d' < length ''0123456789''" by simp_all
  ultimately show "d = d'"
    using a(3) unfolding digit_char_def by (simp only: nth_eq_iff_index_eq)
qed

lemma toString_not_Nil: "toString n \<noteq> []"
  by (subst toString.simps) simp

lemma toString_digits: "list_all is_digit (toString n)"
proof (induction n rule: toString.induct)
  case (1 n)
  show ?case
  proof (cases "n < 10")
    case True
    then show ?thesis by (subst toString.simps) (simp add: digit_char_is_digit)
  next
    case False
    with 1 have "list_all is_digit (toString (n div 10))" by simp
    with False show ?thesis
      by (subst toString.simps) (simp add: digit_char_is_digit)
  qed
qed

lemma toString_inj: "toString m = toString n \<Longrightarrow> m = n"
proof (induction m arbitrary: n rule: toString.induct)
  case (1 m)
  show ?case
  proof (cases "m < 10")
    case m: True
    show ?thesis
    proof (cases "n < 10")
      case True
      with m 1(2) show ?thesis
        by (simp add: toString.simps [of m] toString.simps [of n] digit_char_inj)
    next
      case False
      with m 1(2) have "toString (n div 10) = []"
        by (simp add: toString.simps [of m] toString.simps [of n])
      with toString_not_Nil show ?thesis by blast
    qed
  next
    case m: False
    show ?thesis
    proof (cases "n < 10")
      case True
      with m 1(2) have "toString (m div 10) = []"
        by (simp add: toString.simps [of m] toString.simps [of n])
      with toString_not_Nil show ?thesis by blast
    next
      case False
      with m 1(2) have e: "toString (m div 10) = toString (n div 10)"
        "digit_char (m mod 10) = digit_char (n mod 10)"
        by (simp_all add: toString.simps [of m] toString.simps [of n])
      from 1(1) [OF m e(1)] have "m div 10 = n div 10" .
      moreover from e(2) have "m mod 10 = n mod 10"
        by (intro digit_char_inj) simp_all
      ultimately show ?thesis by (metis div_mult_mod_eq)
    qed
  qed
qed

lemma toString_eq_iff: "toString m = toString n \<longleftrightarrow> m = n"
  using toString_inj by blast

lemma trim_a: "trim (utf16 ''a'') = utf16 ''a''"
  by (simp add: trim_def is_ws_def utf16_def)

lemma trim_b: "trim (utf16 ''b'') = utf16 ''b''"
  by (simp add: trim_def is_ws_def utf16_def)

lemma group_send_result:
  "trim (gc_newMessage s) \<noteq> [] \<Longrightarrow>
     group_handleSendMessage e user now stamp s =
       (s\<lparr> gc_newMessage := [],
            gc_messages := gc_messages s @
              [\<lparr> gmsg_id = ''temp_'' @ toString now, gmsg_groupId = gc_group_id s,
                 gmsg_sender =
                   \<lparr> member_id = (case user of None \<Rightarrow> [] | Some u \<Rightarrow> user_id u),
                     member_name = (case user of None \<Rightarrow> [] | Some u \<Rightarrow> user_name u),
                     member_email = [] \<rparr>,
                 gmsg_content = trim (gc_newMessage s), gmsg_isSystemMessage = False,
                 gmsg_createdAt = stamp \<rparr>] \<rparr>,
        (if e then [PreventDefault] else [])
          @ [GroupApi_sendMessage (gc_group_id s) (trim (gc_newMessage s)) (toString now)],
        Some (toString now))"
  by (simp add: group_handleSendMessage_def Let_def)

lemma anonymous_send_result:
  "trim (ac_newMessage s) \<noteq> [] \<Longrightarrow>
     anonymous_handleSendMessage roomId me now stamp service s =
       (s\<lparr> ac_newMessage := [],
            ac_messages := ac_messages s @
              [\<lparr> amsg_id = ''temp_'' @ toString now, amsg_anonymousName = me,
                 amsg_content = trim (ac_newMessage s), amsg_createdAt = stamp,
                 amsg_isMe = Some True \<rparr>] \<rparr>,
        emit ''send-anonymous-message''
          (Send_anonymous_message roomId (trim (ac_newMessage s)) (toString now)) service)"
  by (simp add: anonymous_handleSendMessage_def Let_def)

lemma direct_send_result:
  "trim (cw_newMessage s) \<noteq> [] \<Longrightarrow>
     direct_handleSendMessage user now stamp service s =
       (s\<lparr> cw_newMessage := [],
            cw_messages := cw_messages s @
              [\<lparr> msg_id = toString now,
                 msg_sender = (case user of None \<Rightarrow> [] | Some u \<Rightarrow> user_id u),
                 msg_recipient = cw_friend_id s, msg_content = trim (cw_newMessage s),
                 msg_isRead = True, msg_createdAt = stamp \<rparr>] \<rparr>,
        PreventDefault
          # emit ''send-message'' (Send_message (cw_friend_id s) (trim (cw_newMessage s)))
              service)"
  by (simp add: direct_handleSendMessage_def Let_def)

text \<open>
  C7, as amended. The correlation id of a send is the decimal \<open>Date.now()\<close> of the
  moment of the send: two sends (in the group view, or in the anonymous room view) get the
  same correlation id, and their optimistic entries the same id, exactly when their clock
  readings are equal. A send whose \<open>temp_\<close> id is not yet in the transcript leaves exactly
  one entry with that id.
\<close>

theorem correlation_ids:
  "(trim (gc_newMessage s1) \<noteq> [] \<and> trim (gc_newMessage s2) \<noteq> [] \<longrightarrow>
      (snd (snd (group_handleSendMessage e1 u1 now1 st1 s1))
         = snd (snd (group_handleSendMessage e2 u2 now2 st2 s2)) \<longleftrightarrow> now1 = now2)
      \<and> (gmsg_id (last (gc_messages (fst (group_handleSendMessage e1 u1 now1 st1 s1))))
         = gmsg_id (last (gc_messages (fst (group_handleSendMessage e2 u2 now2 st2 s2))))
           \<longleftrightarrow> now1 = now2))
   \<and> (trim (ac_newMessage a1) \<noteq> [] \<and> trim (ac_newMessage a2) \<noteq> [] \<longrightarrow>
      (amsg_id (last (ac_messages (fst (anonymous_handleSendMessage r1 n1 now1 st1 v1 a1))))
         = amsg_id (last (ac_messages (fst (anonymous_handleSendMessage r2 n2 now2 st2 v2 a2))))
           \<longleftrightarrow> now1 = now2))
   \<and> (trim (gc_newMessage s1) \<noteq> []
        \<and> ''temp_'' @ toString now1 \<notin> gmsg_id ` set (gc_messages s1) \<longrightarrow>
      length (filter (\<lambda>m. gmsg_id m = ''temp_'' @ toString now1)
        (gc_messages (fst (group_handleSendMessage e1 u1 now1 st1 s1)))) = 1)
   \<and> (trim (ac_newMessage a1) \<noteq> []
        \<and> ''temp_'' @ toString now1 \<notin> amsg_id ` set (ac_messages a1) \<longrightarrow>
      length (filter (\<lambda>m. amsg_id m = ''temp_'' @ toString now1)
        (ac_messages (fst (anonymous_handleSendMessage r1 n1 now1 st1 v1 a1)))) = 1)"
proof -
  have none: "filter (\<lambda>m. f m = i) xs = []" if "i \<notin> f ` set xs"
    for f :: "'a \<Rightarrow> string" and i xs
    using that by (auto simp: filter_empty_conv)
  have c1: "trim (gc_newMessage s1) \<noteq> [] \<and> trim (gc_newMessage s2) \<noteq> [] \<longrightarrow>
      (snd (snd (group_handleSendMessage e1 u1 now1 st1 s1))
         = snd (snd (group_handleSendMessage e2 u2 now2 st2 s2)) \<longleftrightarrow> now1 = now2)
      \<and> (gmsg_id (last (gc_messages (fst (group_handleSendMessage e1 u1 now1 st1 s1))))
         = gmsg_id (last (gc_messages (fst (group_handleSendMessage e2 u2 now2 st2 s2))))
           \<longleftrightarrow> now1 = now2)"
    by (simp add: group_send_result toString_eq_iff)
  have c2: "trim (ac_newMessage a1) \<noteq> [] \<and> trim (ac_newMessage a2) \<noteq> [] \<longrightarrow>
      (amsg_id (last (ac_messages (fst (anonymous_handleSendMessage r1 n1 now1 st1 v1 a1))))
         = amsg_id (last (ac_messages (fst (anonymous_handleSendMessage r2 n2 now2 st2 v2 a2))))
           \<longleftrightarrow> now1 = now2)"
    by (simp add: anonymous_send_result toString_eq_iff)
  have c3: "trim (gc_newMessage s1) \<noteq> []
        \<and> ''temp_'' @ toString now1 \<notin> gmsg_id ` set (gc_messages s1) \<longrightarrow>
      length (filter (\<lambda>m. gmsg_id m = ''temp_'' @ toString now1)
        (gc_messages (fst (group_handleSendMessage e1 u1 now1 st1 s1)))) = 1"
  proof
    assume h: "trim (gc_newMessage s1) \<noteq> []
        \<and> ''temp_'' @ toString now1 \<notin> gmsg_id ` set (gc_messages s1)"
    then have "filter (\<lambda>m. gmsg_id m = ''temp_'' @ toString now1) (gc_messages s1) = []"
      by (intro none) blast
    with h show "length (filter (\<lambda>m. gmsg_id m = ''temp_'' @ toString now1)
        (gc_messages (fst (group_handleSendMessage e1 u1 now1 st1 s1)))) = 1"
      by (simp add: group_send_result)
  qed
  have c4: "trim (ac_newMessage a1) \<noteq> []
        \<and> ''temp_'' @ toString now1 \<notin> amsg_id ` set (ac_messages a1) \<longrightarrow>
      length (filter (\<lambda>m. amsg_id m = ''temp_'' @ toString now1)
        (ac_messages (fst (anonymous_handleSendMessage r1 n1 now1 st1 v1 a1)))) = 1"
  proof
    assume h: "trim (ac_newMessage a1) \<noteq> []
        \<and> ''temp_'' @ toString now1 \<notin> amsg_id ` set (ac_messages a1)"
    then have "filter (\<lambda>m. amsg_id m = ''temp_'' @ toString now1) (ac_messages a1) = []"
      by (intro none) blast
    with h show "length (filter (\<lambda>m. amsg_id m = ''temp_'' @ toString now1)
        (ac_messages (fst (anonymous_handleSendMessage r1 n1 now1 st1 v1 a1)))) = 1"
      by (simp add: anonymous_send_result)
  qed
  show ?thesis by (intro conjI c1 c2 c3 c4)
qed


theorem correlation_ids_witness:
  "snd (snd (group_handleSendMessage True None 5 ''t'' (sample_group_view (utf16 ''a''))))
     \<noteq> snd (snd (group_handleSendMessage True None 6 ''t'' (sample_group_view (utf16 ''b''))))
   \<and> amsg_id (last (ac_messages (fst (anonymous_handleSendMessage ''r1'' ''Fox'' 5 ''t''
          new_SocketService (sample_anonymous_view (utf16 ''a''))))))
     \<noteq> amsg_id (last (ac_messages (fst (anonymous_handleSendMessage ''r1'' ''Fox'' 6 ''t''
          new_SocketService (sample_anonymous_view (utf16 ''b''))))))
   \<and> length (filter (\<lambda>m. gmsg_id m = ''temp_'' @ toString 5)
        (gc_messages (fst (group_handleSendMessage True None 5 ''t''
           (sample_group_view (utf16 ''a'')))))) = 1
   \<and> length (filter (\<lambda>m. amsg_id m = ''temp_'' @ toString 5)
        (ac_messages (fst (anonymous_handleSendMessage ''r1'' ''Fox'' 5 ''t''
           new_SocketService (sample_anonymous_view (utf16 ''a'')))))) = 1"
proof -
  have hg: "trim (gc_newMessage (sample_group_view (utf16 ''a''))) \<noteq> []
      \<and> trim (gc_newMessage (sample_group_view (utf16 ''b''))) \<noteq> []"
    by (simp add: sample_group_view_def trim_a trim_b)
  have ha: "trim (ac_newMessage (sample_anonymous_view (utf16 ''a''))) \<noteq> []
      \<and> trim (ac_newMessage (sample_anonymous_view (utf16 ''b''))) \<noteq> []"
    by (simp add: sample_anonymous_view_def trim_a trim_b)
  have hg1: "trim (gc_newMessage (sample_group_view (utf16 ''a''))) \<noteq> []
      \<and> ''temp_'' @ toString 5 \<notin> gmsg_id ` set (gc_messages (sample_group_view (utf16 ''a'')))"
    by (simp add: sample_group_view_def trim_a)
  have ha1: "trim (ac_newMessage (sample_anonymous_view (utf16 ''a''))) \<noteq> []
      \<and> ''temp_'' @ toString 5 \<notin> amsg_id ` set (ac_messages (sample_anonymous_view (utf16 ''a'')))"
    by (simp add: sample_anonymous_view_def trim_a)
  have ne: "(5::nat) \<noteq> 6" by simp
  from correlation_ids [where ?s1.0 = "sample_group_view (utf16 ''a'')"
      and ?s2.0 = "sample_group_view (utf16 ''b'')" and ?e1.0 = True and ?e2.0 = True
      and ?u1.0 = None and ?u2.0 = None and ?now1.0 = 5 and ?now2.0 = 6
      and ?st1.0 = "''t''" and ?st2.0 = "''t''"
      and ?a1.0 = "sample_anonymous_view (utf16 ''a'')" and ?a2.0 = "sample_anonymous_view (utf16 ''b'')"
      and ?r1.0 = "''r1''" and ?r2.0 = "''r1''" and ?n1.0 = "''Fox''" and ?n2.0 = "''Fox''"
      and ?v1.0 = new_SocketService and ?v2.0 = new_SocketService]
    hg ha hg1 ha1 ne
  show ?thesis by blast
qed

text \<open>
  The claim as stated fails: two sends in the same millisecond get the same correlation
  id, and the transcript then holds two optimistic entries with the same id.
\<close>

theorem correlation_ids_counterexample:
  "snd (snd (group_handleSendMessage True None 5 ''t'' (sample_group_view (utf16 ''a''))))
     = snd (snd (group_handleSendMessage True None 5 ''t''
         ((fst (group_handleSendMessage True None 5 ''t'' (sample_group_view (utf16 ''a''))))
            \<lparr> gc_newMessage := utf16 ''b'' \<rparr>)))
   \<and> length (filter (\<lambda>m. gmsg_id m = ''temp_5'')
        (gc_messages (fst (group_handleSendMessage True None 5 ''t''
          ((fst (group_handleSendMessage True None 5 ''t'' (sample_group_view (utf16 ''a''))))
             \<lparr> gc_newMessage := utf16 ''b'' \<rparr>))))) = 2"
  by (simp add: group_handleSendMessage_def sample_group_view_def trim_a trim_b Let_def
      toString_5)

section \<open>The format of optimistic ids\<close>

lemma isOptimistic_temp: "isOptimistic (''temp_'' @ x)"
  by (simp add: isOptimistic_def startsWith_def)

text \<open>
  C6, as amended. In the group view and in the anonymous room view the id of every
  optimistically created message is \<open>temp_\<close> followed by a non-empty string of decimal
  digits, the \<open>Date.now()\<close> of the send. Such an id passes the \<open>startsWith('temp_')\<close>
  test, so it differs from every id that does not start with \<open>temp_\<close>; a message built
  from a push event carries the event's id unchanged.
\<close>

theorem optimistic_id_format:
  "(trim (gc_newMessage s) \<noteq> [] \<longrightarrow>
      gmsg_id (last (gc_messages (fst (group_handleSendMessage e user now stamp s))))
        = ''temp_'' @ toString now)
   \<and> (trim (ac_newMessage a) \<noteq> [] \<longrightarrow>
      amsg_id (last (ac_messages (fst (anonymous_handleSendMessage r me now stamp service a))))
        = ''temp_'' @ toString now)
   \<and> list_all is_digit (toString now) \<and> toString now \<noteq> []
   \<and> isOptimistic (''temp_'' @ toString now)
   \<and> (\<not> isOptimistic sid \<longrightarrow> ''temp_'' @ toString now \<noteq> sid)
   \<and> gmsg_id (group_message_of data) = gev_id data
   \<and> amsg_id (anonymous_message_of me adata) = aev_id adata"
proof -
  have c1: "trim (gc_newMessage s) \<noteq> [] \<longrightarrow>
      gmsg_id (last (gc_messages (fst (group_handleSendMessage e user now stamp s))))
        = ''temp_'' @ toString now"
    by (simp add: group_send_result)
  have c2: "trim (ac_newMessage a) \<noteq> [] \<longrightarrow>
      amsg_id (last (ac_messages (fst (anonymous_handleSendMessage r me now stamp service a))))
        = ''temp_'' @ toString now"
    by (simp add: anonymous_send_result)
  have c3: "\<not> isOptimistic sid \<longrightarrow> ''temp_'' @ toString now \<noteq> sid"
    using isOptimistic_temp [of "toString now"] by metis
  have c4: "gmsg_id (group_message_of data) = gev_id data"
    by (simp add: group_message_of_def)
  have c5: "amsg_id (anonymous_message_of me adata) = aev_id adata"
    by (simp add: anonymous_message_of_def)
  show ?thesis
    by (intro conjI c1 c2 c3 c4 c5 toString_digits toString_not_Nil isOptimistic_temp)
qed

theorem optimistic_id_format_witness:
  "gmsg_id (last (gc_messages (fst (group_handleSendMessage True None 5 ''t''
       (sample_group_view (utf16 '' hi '')))))) = ''temp_'' @ toString 5
   \<and> amsg_id (last (ac_messages (fst (anonymous_handleSendMessage ''r1'' ''Fox'' 5 ''t''
       new_SocketService (sample_anonymous_view (utf16 '' hi '')))))) = ''temp_'' @ toString 5
   \<and> ''temp_'' @ toString 5 \<noteq> ''s1''"
proof -
  have hg: "trim (gc_newMessage (sample_group_view (utf16 '' hi ''))) \<noteq> []"
    by (simp add: sample_group_view_def trim_hi)
  have ha: "trim (ac_newMessage (sample_anonymous_view (utf16 '' hi ''))) \<noteq> []"
    by (simp add: sample_anonymous_view_def trim_hi)
  have hs: "\<not> isOptimistic ''s1''"
    by (simp add: isOptimistic_def startsWith_def)
  from optimistic_id_format [where s = "sample_group_view (utf16 '' hi '')" and e = True
      and user = None and now = 5 and stamp = "''t''"
      and a = "sample_anonymous_view (utf16 '' hi '')" and r = "''r1''" and me = "''Fox''"
      and service = new_SocketService and sid = "''s1''"]
    hg ha hs
  show ?thesis by blast
qed

text \<open>
  The claim as stated fails: in the direct chat window the id of the entry added by a
  send is the bare timestamp, without the prefix; and nothing in the group view keeps an
  event from carrying an id that an optimistic entry has.
\<close>

theorem optimistic_id_format_counterexample:
  "msg_id (last (cw_messages (fst (direct_handleSendMessage None 5 ''t'' new_SocketService
       (sample_chat_window (utf16 '' hi '')))))) = ''5''
   \<and> \<not> isOptimistic ''5''
   \<and> gmsg_id (group_message_of (sample_group_event ''temp_5'' ''g1'' None))
       = gmsg_id (last (gc_messages (fst (group_handleSendMessage True None 5 ''t''
           (sample_group_view (utf16 '' hi ''))))))"
  by (simp add: direct_handleSendMessage_def sample_chat_window_def trim_hi Let_def
      toString_5 isOptimistic_def startsWith_def group_message_of_def sample_group_event_def
      group_handleSendMessage_def sample_group_view_def)

section \<open>A local send\<close>

lemma trim_blank: "trim (utf16 ''   '') = []"
  by (simp add: trim_def is_ws_def utf16_def)

lemma trim_unicode_blank: "trim [0xA0, 0x2028, 0x2003, 0xFEFF] = []"
  by (simp add: trim_def is_ws_def)

text \<open>
  C8. In the group view, the anonymous room view and the direct chat window: when the
  trimmed input is empty, a send leaves the view state (and with it the transcript) as it
  was and issues no network operation; when it is not empty, the send appends exactly one
  message, holding the trimmed input, at the end of the transcript, in the same step that
  issues the request and before any answer to it can be taken into account (the function
  takes none).
\<close>

theorem local_send:
  "(trim (gc_newMessage s) = [] \<longrightarrow>
      fst (group_handleSendMessage e user now stamp s) = s
      \<and> filter is_network (fst (snd (group_handleSendMessage e user now stamp s))) = [])
   \<and> (trim (gc_newMessage s) \<noteq> [] \<longrightarrow>
      gc_messages (fst (group_handleSendMessage e user now stamp s))
        = gc_messages s @
            [\<lparr> gmsg_id = ''temp_'' @ toString now, gmsg_groupId = gc_group_id s,
               gmsg_sender =
                 \<lparr> member_id = (case user of None \<Rightarrow> [] | Some u \<Rightarrow> user_id u),
                   member_name = (case user of None \<Rightarrow> [] | Some u \<Rightarrow> user_name u),
                   member_email = [] \<rparr>,
               gmsg_content = trim (gc_newMessage s), gmsg_isSystemMessage = False,
               gmsg_createdAt = stamp \<rparr>]
      \<and> filter is_network (fst (snd (group_handleSendMessage e user now stamp s)))
           = [GroupApi_sendMessage (gc_group_id s) (trim (gc_newMessage s)) (toString now)])
   \<and> (trim (ac_newMessage a) = [] \<longrightarrow>
      anonymous_handleSendMessage r me now stamp service a = (a, []))
   \<and> (trim (ac_newMessage a) \<noteq> [] \<longrightarrow>
      ac_messages (fst (anonymous_handleSendMessage r me now stamp service a))
        = ac_messages a @
            [\<lparr> amsg_id = ''temp_'' @ toString now, amsg_anonymousName = me,
               amsg_content = trim (ac_newMessage a), amsg_createdAt = stamp,
               amsg_isMe = Some True \<rparr>])
   \<and> (trim (cw_newMessage w) = [] \<longrightarrow>
      fst (direct_handleSendMessage user now stamp service w) = w
      \<and> filter is_network (snd (direct_handleSendMessage user now stamp service w)) = [])
   \<and> (trim (cw_newMessage w) \<noteq> [] \<longrightarrow>
      cw_messages (fst (direct_handleSendMessage user now stamp service w))
        = cw_messages w @
            [\<lparr> msg_id = toString now,
               msg_sender = (case user of None \<Rightarrow> [] | Some u \<Rightarrow> user_id u),
               msg_recipient = cw_friend_id w, msg_content = trim (cw_newMessage w),
               msg_isRead = True, msg_createdAt = stamp \<rparr>])"
proof -
  have c1: "trim (gc_newMessage s) = [] \<longrightarrow>
      fst (group_handleSendMessage e user now stamp s) = s
      \<and> filter is_network (fst (snd (group_handleSendMessage e user now stamp s))) = []"
    by (simp add: group_handleSendMessage_def)
  have c2: "trim (gc_newMessage s) \<noteq> [] \<longrightarrow>
      gc_messages (fst (group_handleSendMessage e user now stamp s))
        = gc_messages s @
            [\<lparr> gmsg_id = ''temp_'' @ toString now, gmsg_groupId = gc_group_id s,
               gmsg_sender =
                 \<lparr> member_id = (case user of None \<Rightarrow> [] | Some u \<Rightarrow> user_id u),
                   member_name = (case user of None \<Rightarrow> [] | Some u \<Rightarrow> user_name u),
                   member_email = [] \<rparr>,
               gmsg_content = trim (gc_newMessage s), gmsg_isSystemMessage = False,
               gmsg_createdAt = stamp \<rparr>]
      \<and> filter is_network (fst (snd (group_handleSendMessage e user now stamp s)))
           = [GroupApi_sendMessage (gc_group_id s) (trim (gc_newMessage s)) (toString now)]"
    by (simp add: group_send_result)
  have c3: "trim (ac_newMessage a) = [] \<longrightarrow>
      anonymous_handleSendMessage r me now stamp service a = (a, [])"
    by (simp add: anonymous_handleSendMessage_def)
  have c4: "trim (ac_newMessage a) \<noteq> [] \<longrightarrow>
      ac_messages (fst (anonymous_handleSendMessage r me now stamp service a))
        = ac_messages a @
            [\<lparr> amsg_id = ''temp_'' @ toString now, amsg_anonymousName = me,
               amsg_content = trim (ac_newMessage a), amsg_createdAt = stamp,
               amsg_isMe = Some True \<rparr>]"
    by (simp add: anonymous_send_result)
  have c5: "trim (cw_newMessage w) = [] \<longrightarrow>
      fst (direct_handleSendMessage user now stamp service w) = w
      \<and> filter is_network (snd (direct_handleSendMessage user now stamp service w)) = []"
    by (simp add: direct_handleSendMessage_def)
  have c6: "trim (cw_newMessage w) \<noteq> [] \<longrightarrow>
      cw_messages (fst (direct_handleSendMessage user now stamp service w))
        = cw_messages w @
            [\<lparr> msg_id = toString now,
               msg_sender = (case user of None \<Rightarrow> [] | Some u \<Rightarrow> user_id u),
               msg_recipient = cw_friend_id w, msg_content = trim (cw_newMessage w),
               msg_isRead = True, msg_createdAt = stamp \<rparr>]"
    by (simp add: direct_send_result)
  show ?thesis by (intro conjI c1 c2 c3 c4 c5 c6)
qed

theorem local_send_witness:
  "fst (group_handleSendMessage True None 5 ''t'' (sample_group_view (utf16 ''   '')))
     = sample_group_view (utf16 ''   '')
   \<and> fst (group_handleSendMessage True None 5 ''t''
        (sample_group_view [0xA0, 0x2028, 0x2003, 0xFEFF]))
     = sample_group_view [0xA0, 0x2028, 0x2003, 0xFEFF]
   \<and> gc_messages (fst (group_handleSendMessage True None 5 ''t''
        (sample_group_view (utf16 '' hi ''))))
     = [\<lparr> gmsg_id = ''temp_5'', gmsg_groupId = ''g1'',
          gmsg_sender = \<lparr> member_id = [], member_name = [], member_email = [] \<rparr>,
          gmsg_content = utf16 ''hi'', gmsg_isSystemMessage = False, gmsg_createdAt = ''t'' \<rparr>]
   \<and> filter is_network (fst (snd (group_handleSendMessage True None 5 ''t''
        (sample_group_view (utf16 '' hi '')))))
     = [GroupApi_sendMessage ''g1'' (utf16 ''hi'') ''5'']
   \<and> anonymous_handleSendMessage ''r1'' ''Fox'' 5 ''t'' new_SocketService
        (sample_anonymous_view [0xA0]) = (sample_anonymous_view [0xA0], [])
   \<and> ac_messages (fst (anonymous_handleSendMessage ''r1'' ''Fox'' 5 ''t''
        new_SocketService (sample_anonymous_view (utf16 '' hi ''))))
     = [\<lparr> amsg_id = ''temp_5'', amsg_anonymousName = ''Fox'', amsg_content = utf16 ''hi'',
          amsg_createdAt = ''t'', amsg_isMe = Some True \<rparr>]
   \<and> fst (direct_handleSendMessage None 5 ''t'' new_SocketService (sample_chat_window [0xA0]))
       = sample_chat_window [0xA0]
   \<and> cw_messages (fst (direct_handleSendMessage None 5 ''t'' new_SocketService
        (sample_chat_window (utf16 '' hi ''))))
     = [\<lparr> msg_id = ''5'', msg_sender = [], msg_recipient = ''f1'',
          msg_content = utf16 ''hi'', msg_isRead = True, msg_createdAt = ''t'' \<rparr>]"
proof -
  have nbsp: "trim [0xA0] = []"
    by (simp add: trim_def is_ws_def)
  have g0: "trim (gc_newMessage (sample_group_view (utf16 ''   ''))) = []"
    by (simp add: sample_group_view_def trim_blank)
  have g0u: "trim (gc_newMessage (sample_group_view [0xA0, 0x2028, 0x2003, 0xFEFF])) = []"
    by (simp add: sample_group_view_def trim_unicode_blank)
  have g1: "trim (gc_newMessage (sample_group_view (utf16 '' hi ''))) \<noteq> []"
    by (simp add: sample_group_view_def trim_hi)
  have a0: "trim (ac_newMessage (sample_anonymous_view [0xA0])) = []"
    by (simp add: sample_anonymous_view_def nbsp)
  have a1: "trim (ac_newMessage (sample_anonymous_view (utf16 '' hi ''))) \<noteq> []"
    by (simp add: sample_anonymous_view_def trim_hi)
  have w0: "trim (cw_newMessage (sample_chat_window [0xA0])) = []"
    by (simp add: sample_chat_window_def nbsp)
  have w1: "trim (cw_newMessage (sample_chat_window (utf16 '' hi ''))) \<noteq> []"
    by (simp add: sample_chat_window_def trim_hi)
  note blank = local_send [where s = "sample_group_view (utf16 ''   '')" and e = True
      and user = None and now = 5 and stamp = "''t''" and a = "sample_anonymous_view [0xA0]"
      and r = "''r1''" and me = "''Fox''" and service = new_SocketService
      and w = "sample_chat_window [0xA0]"]
  note ublank = local_send [where s = "sample_group_view [0xA0, 0x2028, 0x2003, 0xFEFF]"
      and e = True and user = None and now = 5 and stamp = "''t''"]
  note typed = local_send [where s = "sample_group_view (utf16 '' hi '')" and e = True
      and user = None and now = 5 and stamp = "''t''"
      and a = "sample_anonymous_view (utf16 '' hi '')"
      and r = "''r1''" and me = "''Fox''" and service = new_SocketService
      and w = "sample_chat_window (utf16 '' hi '')"]
  from blank g0 have b1: "fst (group_handleSendMessage True None 5 ''t''
      (sample_group_view (utf16 ''   ''))) = sample_group_view (utf16 ''   '')"
    by blast
  from ublank g0u have b1u: "fst (group_handleSendMessage True None 5 ''t''
      (sample_group_view [0xA0, 0x2028, 0x2003, 0xFEFF]))
        = sample_group_view [0xA0, 0x2028, 0x2003, 0xFEFF]"
    by blast
  from typed [THEN conjunct2, THEN conjunct1, rule_format, OF g1]
  have b2: "gc_messages (fst (group_handleSendMessage True None 5 ''t''
        (sample_group_view (utf16 '' hi ''))))
     = [\<lparr> gmsg_id = ''temp_5'', gmsg_groupId = ''g1'',
          gmsg_sender = \<lparr> member_id = [], member_name = [], member_email = [] \<rparr>,
          gmsg_content = utf16 ''hi'', gmsg_isSystemMessage = False, gmsg_createdAt = ''t'' \<rparr>]"
    and b2n: "filter is_network (fst (snd (group_handleSendMessage True None 5 ''t''
        (sample_group_view (utf16 '' hi '')))))
     = [GroupApi_sendMessage ''g1'' (utf16 ''hi'') ''5'']"
    by (simp_all add: sample_group_view_def trim_hi toString_5)
  from blank a0 have b3: "anonymous_handleSendMessage ''r1'' ''Fox'' 5 ''t'' new_SocketService
        (sample_anonymous_view [0xA0]) = (sample_anonymous_view [0xA0], [])"
    by blast
  from typed [THEN conjunct2, THEN conjunct2, THEN conjunct2, THEN conjunct1, rule_format, OF a1]
  have b4: "ac_messages (fst (anonymous_handleSendMessage ''r1'' ''Fox'' 5 ''t''
        new_SocketService (sample_anonymous_view (utf16 '' hi ''))))
     = [\<lparr> amsg_id = ''temp_5'', amsg_anonymousName = ''Fox'', amsg_content = utf16 ''hi'',
          amsg_createdAt = ''t'', amsg_isMe = Some True \<rparr>]"
    by (simp add: sample_anonymous_view_def trim_hi toString_5)
  from blank w0 have b5: "fst (direct_handleSendMessage None 5 ''t'' new_SocketService
      (sample_chat_window [0xA0])) = sample_chat_window [0xA0]"
    by blast
  from typed [THEN conjunct2, THEN conjunct2, THEN conjunct2, THEN conjunct2, THEN conjunct2,
      rule_format, OF w1]
  have b6: "cw_messages (fst (direct_handleSendMessage None 5 ''t'' new_SocketService
        (sample_chat_window (utf16 '' hi ''))))
     = [\<lparr> msg_id = ''5'', msg_sender = [], msg_recipient = ''f1'',
          msg_content = utf16 ''hi'', msg_isRead = True, msg_createdAt = ''t'' \<rparr>]"
    by (simp add: sample_chat_window_def trim_hi toString_5)
  show ?thesis by (intro conjI b1 b1u b2 b2n b3 b4 b5 b6)
qed


end
